theory Spec2Isabelle
  imports Complex_Main
begin

section \<open>Data model of weather\_analysis.py\<close>

text \<open>
  The script works on pandas DataFrames. A frame is modelled by its ordered list of column
  names and its rows in table order; a row is a dictionary from column name to cell. The row
  labels of the index are not modelled: \<open>main\<close> reads the table with a fresh range index and
  resets it before the report is written, so a label and a position are the same thing there.

  A cell is what a DataFrame cell can hold in this script: the missing value (pandas \<open>NaN\<close>
  and \<open>NaT\<close>, both missing for \<open>isna\<close>, \<open>dropna\<close> and \<open>fillna\<close>), a number, a string, or a
  timestamp. Numbers are exact reals: rounding of 64-bit floats is outside this model.
\<close>

record date =
  year :: int
  month :: int
  day :: int

datatype cell = NaN | Num real | Text string | Stamp date

datatype error = KeyError string | AttributeError | TypeError | ValueError

type_synonym row = "string \<rightharpoonup> cell"

record frame =
  columns :: "string list"
  rows :: "row list"

definition cell_at :: "row \<Rightarrow> string \<Rightarrow> cell" where
  "cell_at r c = (case r c of None \<Rightarrow> NaN | Some v \<Rightarrow> v)"

definition isna :: "cell \<Rightarrow> bool" where
  "isna v = (v = NaN)"

text \<open>\<open>df[c]\<close>: the column as a series, in table order.\<close>

definition column :: "frame \<Rightarrow> string \<Rightarrow> cell list" where
  "column df c = map (\<lambda>r. cell_at r c) (rows df)"

text \<open>\<open>df[c] = s\<close>: an existing column keeps its place, a new one is appended.\<close>

definition assign :: "string \<Rightarrow> cell list \<Rightarrow> frame \<Rightarrow> frame" where
  "assign c s df =
     \<lparr>columns = (if c \<in> set (columns df) then columns df else columns df @ [c]),
      rows = map (\<lambda>(r, v). r(c \<mapsto> v)) (zip (rows df) s)\<rparr>"

text \<open>\<open>df.dropna(how="all")\<close>: a row goes when every one of its cells is missing.\<close>

definition dropna_all :: "frame \<Rightarrow> frame" where
  "dropna_all df =
     df\<lparr>rows := filter (\<lambda>r. list_ex (\<lambda>c. \<not> isna (cell_at r c)) (columns df)) (rows df)\<rparr>"

text \<open>\<open>df.dropna(subset=cs)\<close>: a row goes when one of the named cells is missing.\<close>

definition dropna_subset :: "string list \<Rightarrow> frame \<Rightarrow> frame" where
  "dropna_subset cs df =
     df\<lparr>rows := filter (\<lambda>r. list_all (\<lambda>c. \<not> isna (cell_at r c)) cs) (rows df)\<rparr>"

text \<open>\<open>df[cs]\<close> with a list of column names: the frame restricted to those columns, in the
  order of the list.\<close>

definition select :: "string list \<Rightarrow> frame \<Rightarrow> frame" where
  "select cs df = \<lparr>columns = cs, rows = map (\<lambda>r. r |` set cs) (rows df)\<rparr>"

subsection \<open>The library's coercions\<close>

text \<open>
  \<open>pd.to_datetime\<close> and \<open>pd.to_numeric\<close> belong to pandas, not to the script. What they make
  of a cell that is neither missing nor already of the target type (which strings are dates,
  which strings are numbers) is a parameter of the model; with \<open>errors="coerce"\<close> a cell they
  reject becomes missing. The parser is applied cell by cell.
\<close>

record pandas =
  date_of :: "cell \<Rightarrow> date option"
  num_of :: "cell \<Rightarrow> real option"

definition to_datetime :: "pandas \<Rightarrow> cell \<Rightarrow> cell" where
  "to_datetime p v =
     (case v of
        NaN \<Rightarrow> NaN
      | Stamp d \<Rightarrow> Stamp d
      | _ \<Rightarrow> (case date_of p v of None \<Rightarrow> NaN | Some d \<Rightarrow> Stamp d))"

definition to_numeric :: "pandas \<Rightarrow> cell \<Rightarrow> cell" where
  "to_numeric p v =
     (case v of
        NaN \<Rightarrow> NaN
      | Num x \<Rightarrow> Num x
      | _ \<Rightarrow> (case num_of p v of None \<Rightarrow> NaN | Some x \<Rightarrow> Num x))"

subsection \<open>Series reductions\<close>

text \<open>The numbers of a series; \<open>mean\<close>, \<open>sum\<close>, \<open>max\<close> and \<open>min\<close> skip missing cells.\<close>

fun nums :: "cell list \<Rightarrow> real list" where
  "nums [] = []"
| "nums (Num x # s) = x # nums s"
| "nums (_ # s) = nums s"

text \<open>\<open>Series.mean()\<close>: the mean of the numbers present, \<open>NaN\<close> when there is none.\<close>

definition series_mean :: "cell list \<Rightarrow> cell" where
  "series_mean s =
     (if nums s = [] then NaN else Num (sum_list (nums s) / real (length (nums s))))"

text \<open>\<open>Series.sum()\<close>: the sum of the numbers present, 0 when there is none.\<close>

definition series_sum :: "cell list \<Rightarrow> cell" where
  "series_sum s = Num (sum_list (nums s))"

text \<open>\<open>Series.fillna(value)\<close>\<close>

definition fillna :: "cell \<Rightarrow> cell list \<Rightarrow> cell list" where
  "fillna v s = map (\<lambda>x. if isna x then v else x) s"

section \<open>Task 2: clean\_weather\_data\<close>

text \<open>The body of the loop over the three measurement columns (lines 68 to 72).\<close>

definition fill_column :: "pandas \<Rightarrow> string \<Rightarrow> frame \<Rightarrow> frame" where
  "fill_column p col df =
     (if col \<in> set (columns df) then
        let df1 = assign col (map (to_numeric p) (column df col)) df;
            mean_value = series_mean (column df1 col)
        in assign col (fillna mean_value (column df1 col)) df1
      else df)"

definition cols :: "string list" where
  "cols = [''Date'', ''Temperature'', ''Rainfall'', ''Humidity'']"

definition measurements :: "string list" where
  "measurements = [''Temperature'', ''Rainfall'', ''Humidity'']"

definition clean_weather_data :: "pandas \<Rightarrow> frame \<Rightarrow> error + frame" where
  "clean_weather_data p df0 =
     (let df1 = dropna_all df0 in
      if ''Date'' \<notin> set (columns df1) then Inl (KeyError ''Date'')
      else
        let df2 = assign ''Date'' (map (to_datetime p) (column df1 ''Date'')) df1;
            df3 = dropna_subset [''Date''] df2;
            df4 = select [c \<leftarrow> cols. c \<in> set (columns df3)] df3
        in Inr (fold (fill_column p) measurements df4))"

section \<open>Task 5: grouping by month and season\<close>

text \<open>
  \<open>month_to_season\<close> is applied to the cells of the Month column. A cell that is not a
  number is a member of none of the three lists and falls to the \<open>else\<close> branch, as the
  missing month of a missing date does.
\<close>

fun month_to_season :: "cell \<Rightarrow> string" where
  "month_to_season (Num m) =
     (if m \<in> set [12, 1, 2] then ''Winter''
      else if m \<in> set [3, 4, 5] then ''Spring''
      else if m \<in> set [6, 7, 8] then ''Summer''
      else ''Autumn'')"
| "month_to_season _ = ''Autumn''"

text \<open>\<open>Series.dt.month\<close>: the accessor exists on a series of timestamps only; the month of
  a missing timestamp is missing.\<close>

definition datetimelike :: "cell list \<Rightarrow> bool" where
  "datetimelike s = list_all (\<lambda>v. case v of NaN \<Rightarrow> True | Stamp d \<Rightarrow> True | _ \<Rightarrow> False) s"

definition dt_month :: "cell list \<Rightarrow> error + cell list" where
  "dt_month s =
     (if datetimelike s
      then Inr (map (\<lambda>v. case v of Stamp d \<Rightarrow> Num (of_int (month d)) | _ \<Rightarrow> NaN) s)
      else Inl AttributeError)"

text \<open>
  DataFrames are mutable objects and \<open>add_season_column\<close> assigns two columns to the object
  it is given. The store holds the DataFrame objects; a reference is a position in it, and
  \<open>df.copy()\<close> allocates a new object at the end. A function returns the store it leaves
  behind together with its result or the exception it raised.
\<close>

type_synonym store = "frame list"

definition copy :: "store \<Rightarrow> nat \<Rightarrow> store \<times> nat" where
  "copy h ref = (h @ [h ! ref], length h)"

definition add_season_column :: "store \<Rightarrow> nat \<Rightarrow> store \<times> (error + nat)" where
  "add_season_column h ref =
     (let df = h ! ref in
      if ''Date'' \<notin> set (columns df) then (h, Inl (KeyError ''Date''))
      else
        case dt_month (column df ''Date'') of
          Inl e \<Rightarrow> (h, Inl e)
        | Inr ms \<Rightarrow>
            let df1 = assign ''Month'' ms df;
                df2 = assign ''Season'' (map (\<lambda>v. Text (month_to_season v)) (column df1 ''Month'')) df1
            in (h[ref := df2], Inr ref))"

text \<open>
  \<open>df.groupby(key).agg({"Temperature": "mean", "Rainfall": "sum", "Humidity": "mean"})\<close>.
  The result has one row for each key that occurs in the key column (a missing key forms no
  group); it is modelled as a dictionary from key to aggregated row, so the order in which
  pandas lists the groups is not modelled. A column named in the dictionary and absent from
  the frame raises \<open>KeyError\<close>; a cell that is neither a number nor missing makes the
  aggregation fail.
\<close>

definition numeric_series :: "cell list \<Rightarrow> bool" where
  "numeric_series s = list_all (\<lambda>v. case v of NaN \<Rightarrow> True | Num x \<Rightarrow> True | _ \<Rightarrow> False) s"

definition aggregate :: "row list \<Rightarrow> row" where
  "aggregate g =
     [''Temperature'' \<mapsto> series_mean (map (\<lambda>r. cell_at r ''Temperature'') g),
      ''Rainfall'' \<mapsto> series_sum (map (\<lambda>r. cell_at r ''Rainfall'') g),
      ''Humidity'' \<mapsto> series_mean (map (\<lambda>r. cell_at r ''Humidity'') g)]"

type_synonym grouped = "cell \<rightharpoonup> row"

definition groupby_agg :: "frame \<Rightarrow> string \<Rightarrow> error + grouped" where
  "groupby_agg df key =
     (if key \<notin> set (columns df) then Inl (KeyError key)
      else if ''Temperature'' \<notin> set (columns df) then Inl (KeyError ''Temperature'')
      else if ''Rainfall'' \<notin> set (columns df) then Inl (KeyError ''Rainfall'')
      else if ''Humidity'' \<notin> set (columns df) then Inl (KeyError ''Humidity'')
      else if \<not> list_all (\<lambda>c. numeric_series (column df c)) measurements then Inl TypeError
      else Inr (\<lambda>k. if isna k \<or> k \<notin> set (column df key) then None
                     else Some (aggregate [r \<leftarrow> rows df. cell_at r key = k])))"

definition group_by_month_and_season :: "store \<Rightarrow> nat \<Rightarrow> store \<times> (error + grouped \<times> grouped)" where
  "group_by_month_and_season h ref =
     (let (h1, c) = copy h ref in
      case add_season_column h1 c of
        (h2, Inl e) \<Rightarrow> (h2, Inl e)
      | (h2, Inr df) \<Rightarrow>
          (case groupby_agg (h2 ! df) ''Month'' of
             Inl e \<Rightarrow> (h2, Inl e)
           | Inr monthly_stats \<Rightarrow>
               (case groupby_agg (h2 ! df) ''Season'' of
                  Inl e \<Rightarrow> (h2, Inl e)
                | Inr season_stats \<Rightarrow> (h2, Inr (monthly_stats, season_stats)))))"

section \<open>Task 6: export and report\<close>

text \<open>\<open>df.to_csv(filepath, index=False)\<close>: a header line with the column names and one
  line per row. The file is modelled by its fields; how a number is printed is not.\<close>

record csv_file =
  header :: "string list"
  records :: "cell list list"

definition export_cleaned_data :: "frame \<Rightarrow> csv_file" where
  "export_cleaned_data df =
     \<lparr>header = columns df, records = map (\<lambda>r. map (cell_at r) (columns df)) (rows df)\<rparr>"

text \<open>
  \<open>Series.idxmax()\<close> skips missing cells and returns the label of the first occurrence of
  the maximum. It is modelled as the scan it is: from the top, keeping the best row and its
  value, and \<open>better\<close> replaces the best row only by a strictly larger value. It raises
  \<open>ValueError\<close> when the series has no number to compare.
\<close>

definition better :: "cell \<Rightarrow> nat \<Rightarrow> (nat \<times> real) option \<Rightarrow> (nat \<times> real) option" where
  "better v i best =
     (case v of
        Num x \<Rightarrow>
          (case best of
             None \<Rightarrow> Some (i, x)
           | Some (j, y) \<Rightarrow> if y < x then Some (i, x) else Some (j, y))
      | _ \<Rightarrow> best)"

fun argmax_scan :: "cell list \<Rightarrow> nat \<Rightarrow> (nat \<times> real) option \<Rightarrow> (nat \<times> real) option" where
  "argmax_scan [] i best = best"
| "argmax_scan (v # s) i best = argmax_scan s (Suc i) (better v i best)"

definition idxmax :: "cell list \<Rightarrow> error + nat" where
  "idxmax s = (case argmax_scan s 0 None of None \<Rightarrow> Inl ValueError | Some (i, x) \<Rightarrow> Inr i)"

definition series_max :: "cell list \<Rightarrow> cell" where
  "series_max s = (case nums s of [] \<Rightarrow> NaN | x # xs \<Rightarrow> Num (fold max xs x))"

definition series_min :: "cell list \<Rightarrow> cell" where
  "series_min s = (case nums s of [] \<Rightarrow> NaN | x # xs \<Rightarrow> Num (fold min xs x))"

text \<open>
  The values that \<open>write_summary_report\<close> computes and formats into the text file (lines 275
  to 290). The two table dumps and the fixed remarks that follow are not modelled.
\<close>

record summary =
  avg_temp :: cell
  max_temp :: cell
  min_temp :: cell
  total_rainfall :: cell
  max_rain_day :: date

definition write_summary_report :: "frame \<Rightarrow> error + summary" where
  "write_summary_report df =
     (if ''Temperature'' \<notin> set (columns df) then Inl (KeyError ''Temperature'')
      else if \<not> numeric_series (column df ''Temperature'') then Inl TypeError
      else if ''Rainfall'' \<notin> set (columns df) then Inl (KeyError ''Rainfall'')
      else if \<not> numeric_series (column df ''Rainfall'') then Inl TypeError
      else
        case idxmax (column df ''Rainfall'') of
          Inl e \<Rightarrow> Inl e
        | Inr i \<Rightarrow>
            if ''Date'' \<notin> set (columns df) then Inl (KeyError ''Date'')
            else
              (case column df ''Date'' ! i of
                 Stamp d \<Rightarrow>
                   Inr \<lparr>avg_temp = series_mean (column df ''Temperature''),
                        max_temp = series_max (column df ''Temperature''),
                        min_temp = series_min (column df ''Temperature''),
                        total_rainfall = series_sum (column df ''Rainfall''),
                        max_rain_day = d\<rparr>
               | _ \<Rightarrow> Inl AttributeError))"

section \<open>The pipeline of main\<close>

text \<open>
  \<open>compute_statistics\<close> assigns \<open>pd.to_datetime(df["Date"])\<close> to the Date column of the
  object it is given (without \<open>errors="coerce"\<close>: a cell that does not parse raises) and
  then works on a re-indexed frame of its own; its result is not used by the export or by
  the values of the report. The four plotting functions read the table and raise \<open>KeyError\<close>
  when the column they draw is absent. \<open>df.reset_index(drop=True)\<close> returns a new object.
\<close>

definition compute_statistics :: "pandas \<Rightarrow> store \<Rightarrow> nat \<Rightarrow> store \<times> (error + unit)" where
  "compute_statistics p h ref =
     (let df = h ! ref in
      if ''Date'' \<notin> set (columns df) then (h, Inl (KeyError ''Date''))
      else if list_ex (\<lambda>v. \<not> isna v \<and> isna (to_datetime p v)) (column df ''Date'')
      then (h, Inl ValueError)
      else (h[ref := assign ''Date'' (map (to_datetime p) (column df ''Date'')) df], Inr ()))"

definition plots :: "frame \<Rightarrow> error + unit" where
  "plots df =
     (if ''Temperature'' \<notin> set (columns df) then Inl (KeyError ''Temperature'')
      else if ''Rainfall'' \<notin> set (columns df) then Inl (KeyError ''Rainfall'')
      else if ''Humidity'' \<notin> set (columns df) then Inl (KeyError ''Humidity'')
      else Inr ())"

text \<open>The result of a run: the cleaned CSV if the export was reached, and the values of the
  report or the exception that ended the run.\<close>

definition main :: "pandas \<Rightarrow> frame \<Rightarrow> csv_file option \<times> (error + summary)" where
  "main p raw =
     (case clean_weather_data p raw of
        Inl e \<Rightarrow> (None, Inl e)
      | Inr cleaned \<Rightarrow>
          (case compute_statistics p [cleaned] 0 of
             (h1, Inl e) \<Rightarrow> (None, Inl e)
           | (h1, Inr u) \<Rightarrow>
               let (h2, df) = copy h1 0 in
               (case plots (h2 ! df) of
                  Inl e \<Rightarrow> (None, Inl e)
                | Inr u \<Rightarrow>
                    (case group_by_month_and_season h2 df of
                       (h3, Inl e) \<Rightarrow> (None, Inl e)
                     | (h3, Inr (monthly_stats, season_stats)) \<Rightarrow>
                         (Some (export_cleaned_data (h3 ! df)), write_summary_report (h3 ! df))))))"

section \<open>Notions used in the statements\<close>

text \<open>The rows that survive cleaning, in table order: those whose Date parses. (A row whose
  cells are all missing has a missing Date.)\<close>

definition retained :: "pandas \<Rightarrow> frame \<Rightarrow> row list" where
  "retained p df = [r \<leftarrow> rows df. \<not> isna (to_datetime p (cell_at r ''Date''))]"

definition entirely_empty :: "frame \<Rightarrow> row \<Rightarrow> bool" where
  "entirely_empty df r = list_all (\<lambda>c. isna (cell_at r c)) (columns df)"

definition kept_columns :: "frame \<Rightarrow> string list" where
  "kept_columns df = [c \<leftarrow> cols. c \<in> set (columns df)]"

definition parsed_date :: "pandas \<Rightarrow> row \<Rightarrow> cell" where
  "parsed_date p r = to_datetime p (cell_at r ''Date'')"

text \<open>A measurement column of the retained rows after numeric coercion, before imputation.\<close>

definition coerced_column :: "pandas \<Rightarrow> frame \<Rightarrow> string \<Rightarrow> cell list" where
  "coerced_column p df col = map (\<lambda>r. to_numeric p (cell_at r col)) (retained p df)"

text \<open>The same coercion over any list of rows, and the cell that \<open>fillna\<close> puts for a cell.\<close>

definition coerced :: "pandas \<Rightarrow> string \<Rightarrow> row list \<Rightarrow> cell list" where
  "coerced p col rs = map (\<lambda>r. to_numeric p (cell_at r col)) rs"

definition impute :: "cell \<Rightarrow> cell \<Rightarrow> cell" where
  "impute m v = (if isna v then m else v)"

text \<open>The arithmetic mean of a non-empty list of numbers.\<close>

definition arithmetic_mean :: "real list \<Rightarrow> real" where
  "arithmetic_mean xs = sum_list xs / real (length xs)"

text \<open>A column as the rows store it, \<open>None\<close> where a row has no entry for it.\<close>

definition raw :: "frame \<Rightarrow> string \<Rightarrow> cell option list" where
  "raw df c = map (\<lambda>r. r c) (rows df)"

text \<open>A column of the cleaner's result, or the exception the cleaner raised.\<close>

definition cleaned_column :: "pandas \<Rightarrow> frame \<Rightarrow> string \<Rightarrow> error + cell list" where
  "cleaned_column p df c =
     (case clean_weather_data p df of Inl e \<Rightarrow> Inl e | Inr out \<Rightarrow> Inr (column out c))"

text \<open>Calendar dates of the Gregorian calendar, and their order.\<close>

definition leap_year :: "int \<Rightarrow> bool" where
  "leap_year y = (y mod 4 = 0 \<and> (y mod 100 \<noteq> 0 \<or> y mod 400 = 0))"

definition days_in_month :: "int \<Rightarrow> int \<Rightarrow> int" where
  "days_in_month y m =
     (if m = 2 then (if leap_year y then 29 else 28)
      else if m \<in> set [4, 6, 9, 11] then 30 else 31)"

definition valid_date :: "date \<Rightarrow> bool" where
  "valid_date d =
     (1 \<le> month d \<and> month d \<le> 12 \<and> 1 \<le> day d \<and> day d \<le> days_in_month (year d) (month d))"

definition date_less :: "date \<Rightarrow> date \<Rightarrow> bool" where
  "date_less a b =
     (year a < year b \<or> (year a = year b \<and> (month a < month b \<or> (month a = month b \<and> day a < day b))))"

text \<open>The library hands out valid calendar dates only, and a timestamp in a table is one.\<close>

definition valid_library :: "pandas \<Rightarrow> bool" where
  "valid_library p = (\<forall>v d. date_of p v = Some d \<longrightarrow> valid_date d)"

definition valid_stamps :: "frame \<Rightarrow> bool" where
  "valid_stamps df =
     list_all (\<lambda>r. case cell_at r ''Date'' of Stamp d \<Rightarrow> valid_date d | _ \<Rightarrow> True) (rows df)"

subsection \<open>The scenario of the specification\<close>

text \<open>The three rows of the scenario, and the library at the strings that occur in them:
  the three date strings are dates, the string \<open>bad\<close> is not a number.\<close>

definition scenario_pandas :: pandas where
  "scenario_pandas =
     \<lparr>date_of = (\<lambda>v.
        if v = Text ''2023-01-05'' then Some \<lparr>year = 2023, month = 1, day = 5\<rparr>
        else if v = Text ''2023-01-06'' then Some \<lparr>year = 2023, month = 1, day = 6\<rparr>
        else if v = Text ''2023-02-01'' then Some \<lparr>year = 2023, month = 2, day = 1\<rparr>
        else None),
      num_of = (\<lambda>v. None)\<rparr>"

text \<open>A library reads the scenario when it takes the three date strings for those dates and
  does not take the string \<open>bad\<close> for a number.\<close>

definition reads_scenario :: "pandas \<Rightarrow> bool" where
  "reads_scenario p =
     (date_of p (Text ''2023-01-05'') = Some \<lparr>year = 2023, month = 1, day = 5\<rparr>
      \<and> date_of p (Text ''2023-01-06'') = Some \<lparr>year = 2023, month = 1, day = 6\<rparr>
      \<and> date_of p (Text ''2023-02-01'') = Some \<lparr>year = 2023, month = 2, day = 1\<rparr>
      \<and> num_of p (Text ''bad'') = None)"

definition scenario :: frame where
  "scenario =
     \<lparr>columns = [''Date'', ''Temperature'', ''Rainfall'', ''Humidity''],
      rows =
        [[''Date'' \<mapsto> Text ''2023-01-05'', ''Temperature'' \<mapsto> Num 10,
          ''Rainfall'' \<mapsto> Num 0, ''Humidity'' \<mapsto> Num 50],
         [''Date'' \<mapsto> Text ''2023-01-06'', ''Temperature'' \<mapsto> Text ''bad'',
          ''Rainfall'' \<mapsto> Num 5, ''Humidity'' \<mapsto> Num 60],
         [''Date'' \<mapsto> Text ''2023-02-01'', ''Temperature'' \<mapsto> Num 20,
          ''Rainfall'' \<mapsto> Num 10, ''Humidity'' \<mapsto> Num 70]]\<rparr>"

definition unreadable_temperature :: frame where
  "unreadable_temperature =
     \<lparr>columns = [''Date'', ''Temperature'', ''Rainfall'', ''Humidity''],
      rows =
        [[''Date'' \<mapsto> Text ''2023-01-06'', ''Temperature'' \<mapsto> Text ''bad'',
          ''Rainfall'' \<mapsto> Num 5, ''Humidity'' \<mapsto> Num 60]]\<rparr>"

definition humidity_all_missing :: frame where
  "humidity_all_missing =
     \<lparr>columns = [''Date'', ''Temperature'', ''Rainfall'', ''Humidity''],
      rows =
        [[''Date'' \<mapsto> Text ''2023-01-05'', ''Temperature'' \<mapsto> Num 10,
          ''Rainfall'' \<mapsto> Num 0, ''Humidity'' \<mapsto> NaN],
         [''Date'' \<mapsto> Text ''2023-02-01'', ''Temperature'' \<mapsto> Num 20,
          ''Rainfall'' \<mapsto> Num 10, ''Humidity'' \<mapsto> Text ''n/a'']]\<rparr>"

text \<open>The table the cleaner makes of the scenario.\<close>

definition scenario_cleaned :: frame where
  "scenario_cleaned =
     \<lparr>columns = [''Date'', ''Temperature'', ''Rainfall'', ''Humidity''],
      rows =
        [[''Date'' \<mapsto> Stamp \<lparr>year = 2023, month = 1, day = 5\<rparr>, ''Temperature'' \<mapsto> Num 10,
          ''Rainfall'' \<mapsto> Num 0, ''Humidity'' \<mapsto> Num 50],
         [''Date'' \<mapsto> Stamp \<lparr>year = 2023, month = 1, day = 6\<rparr>, ''Temperature'' \<mapsto> Num 15,
          ''Rainfall'' \<mapsto> Num 5, ''Humidity'' \<mapsto> Num 60],
         [''Date'' \<mapsto> Stamp \<lparr>year = 2023, month = 2, day = 1\<rparr>, ''Temperature'' \<mapsto> Num 20,
          ''Rainfall'' \<mapsto> Num 10, ''Humidity'' \<mapsto> Num 70]]\<rparr>"

text \<open>The scenario with an entirely empty row and a row whose date does not parse.\<close>

definition scenario_with_gaps :: frame where
  "scenario_with_gaps =
     \<lparr>columns = [''Date'', ''Temperature'', ''Rainfall'', ''Humidity''],
      rows =
        [[''Date'' \<mapsto> NaN, ''Temperature'' \<mapsto> NaN, ''Rainfall'' \<mapsto> NaN, ''Humidity'' \<mapsto> NaN],
         [''Date'' \<mapsto> Text ''2023-01-05'', ''Temperature'' \<mapsto> Num 10,
          ''Rainfall'' \<mapsto> Num 0, ''Humidity'' \<mapsto> Num 50],
         [''Date'' \<mapsto> Text ''yesterday'', ''Temperature'' \<mapsto> Num 1000,
          ''Rainfall'' \<mapsto> Num 1000, ''Humidity'' \<mapsto> Num 1000],
         [''Date'' \<mapsto> Text ''2023-01-06'', ''Temperature'' \<mapsto> Text ''bad'',
          ''Rainfall'' \<mapsto> Num 5, ''Humidity'' \<mapsto> Num 60],
         [''Date'' \<mapsto> Text ''2023-02-01'', ''Temperature'' \<mapsto> Num 20,
          ''Rainfall'' \<mapsto> Num 10, ''Humidity'' \<mapsto> Num 70]]\<rparr>"

text \<open>The rows that are not entirely empty and whose Date parses, in table order.\<close>

definition survivors :: "pandas \<Rightarrow> frame \<Rightarrow> row list" where
  "survivors p df = [r \<leftarrow> rows df. \<not> entirely_empty df r \<and> \<not> isna (parsed_date p r)]"

subsection \<open>Notions for the grouping\<close>

text \<open>The Month and Season cells that \<open>add_season_column\<close> derives for a row, and the frame
  with both columns assigned.\<close>

definition month_of_row :: "row \<Rightarrow> cell" where
  "month_of_row r = (case cell_at r ''Date'' of Stamp d \<Rightarrow> Num (of_int (month d)) | _ \<Rightarrow> NaN)"

definition season_of_row :: "row \<Rightarrow> cell" where
  "season_of_row r = Text (month_to_season (month_of_row r))"

definition with_seasons :: "frame \<Rightarrow> frame" where
  "with_seasons df =
     \<lparr>columns =
        (let cs = (if ''Month'' \<in> set (columns df) then columns df else columns df @ [''Month''])
         in if ''Season'' \<in> set cs then cs else cs @ [''Season'']),
      rows = map (\<lambda>r. r(''Month'' \<mapsto> month_of_row r, ''Season'' \<mapsto> season_of_row r)) (rows df)\<rparr>"

text \<open>The buckets: a row's month number, whatever its year, and the season of that month.\<close>

definition in_month :: "int \<Rightarrow> row \<Rightarrow> bool" where
  "in_month m r = (case cell_at r ''Date'' of Stamp d \<Rightarrow> month d = m | _ \<Rightarrow> False)"

definition in_season :: "string \<Rightarrow> row \<Rightarrow> bool" where
  "in_season s r =
     (case cell_at r ''Date'' of Stamp d \<Rightarrow> month_to_season (Num (of_int (month d))) = s | _ \<Rightarrow> False)"

text \<open>The two functions of the claim on a bucket of rows: the arithmetic mean of the numbers
  that the rows hold in a column (missing when they hold none), and the sum of those numbers.\<close>

definition bucket_mean :: "row list \<Rightarrow> string \<Rightarrow> cell" where
  "bucket_mean b c =
     (let xs = nums (map (\<lambda>r. cell_at r c) b)
      in if xs = [] then NaN else Num (arithmetic_mean xs))"

definition bucket_sum :: "row list \<Rightarrow> string \<Rightarrow> cell" where
  "bucket_sum b c = Num (sum_list (nums (map (\<lambda>r. cell_at r c) b)))"

text \<open>What the grouping needs of its table: timestamps in Date and the three measurement
  columns, holding numbers or missing cells.\<close>

definition groupable :: "frame \<Rightarrow> bool" where
  "groupable df =
     (''Date'' \<in> set (columns df) \<and> datetimelike (column df ''Date'')
      \<and> list_all (\<lambda>c. c \<in> set (columns df) \<and> numeric_series (column df c)) measurements)"

text \<open>One cell of the monthly and of the seasonal table that the grouping makes of the cleaned
  table (\<open>None\<close> when the table has no row for the key), or the exception raised on the way.\<close>

definition monthly_stat :: "pandas \<Rightarrow> frame \<Rightarrow> int \<Rightarrow> string \<Rightarrow> error + cell option" where
  "monthly_stat p df0 m c =
     (case clean_weather_data p df0 of
        Inl e \<Rightarrow> Inl e
      | Inr df \<Rightarrow>
          (case snd (group_by_month_and_season [df] 0) of
             Inl e \<Rightarrow> Inl e
           | Inr (monthly_stats, season_stats) \<Rightarrow>
               Inr (map_option (\<lambda>r. cell_at r c) (monthly_stats (Num (of_int m))))))"

definition seasonal_stat :: "pandas \<Rightarrow> frame \<Rightarrow> string \<Rightarrow> string \<Rightarrow> error + cell option" where
  "seasonal_stat p df0 s c =
     (case clean_weather_data p df0 of
        Inl e \<Rightarrow> Inl e
      | Inr df \<Rightarrow>
          (case snd (group_by_month_and_season [df] 0) of
             Inl e \<Rightarrow> Inl e
           | Inr (monthly_stats, season_stats) \<Rightarrow>
               Inr (map_option (\<lambda>r. cell_at r c) (season_stats (Text s)))))"

subsection \<open>Notions for the report\<close>

text \<open>Two days with the same, highest rainfall, the later day first in the table.\<close>

definition tied_rainfall :: frame where
  "tied_rainfall =
     \<lparr>columns = [''Date'', ''Temperature'', ''Rainfall'', ''Humidity''],
      rows =
        [[''Date'' \<mapsto> Text ''2023-02-01'', ''Temperature'' \<mapsto> Num 20,
          ''Rainfall'' \<mapsto> Num 10, ''Humidity'' \<mapsto> Num 70],
         [''Date'' \<mapsto> Text ''2023-01-05'', ''Temperature'' \<mapsto> Num 10,
          ''Rainfall'' \<mapsto> Num 10, ''Humidity'' \<mapsto> Num 50]]\<rparr>"

text \<open>The day the report names for a raw table: clean, then report.\<close>

definition reported_max_rain_day :: "pandas \<Rightarrow> frame \<Rightarrow> error + date" where
  "reported_max_rain_day p df0 =
     (case clean_weather_data p df0 of
        Inl e \<Rightarrow> Inl e
      | Inr df \<Rightarrow> (case write_summary_report df of Inl e \<Rightarrow> Inl e | Inr s \<Rightarrow> Inr (max_rain_day s)))"

section \<open>Properties of the cleaner\<close>

declare restrict_fun_upd [simp del]

lemma assign_map:
  "assign c (map f (column df c')) df =
     \<lparr>columns = (if c \<in> set (columns df) then columns df else columns df @ [c]),
      rows = map (\<lambda>r. r(c \<mapsto> f (cell_at r c'))) (rows df)\<rparr>"
  by (simp add: assign_def column_def zip_map2 zip_same_conv_map)

lemma fillna_impute: "fillna m s = map (impute m) s"
  by (simp add: fillna_def impute_def)

lemma cell_at_upd [simp]: "cell_at (r(c \<mapsto> v)) c' = (if c' = c then v else cell_at r c')"
  by (simp add: cell_at_def)

lemma fill_column_rows:
  assumes "col \<in> set (columns df)"
  shows "fill_column p col df =
     df\<lparr>rows := map (\<lambda>r. r(col \<mapsto> impute (series_mean (coerced p col (rows df)))
                                       (to_numeric p (cell_at r col)))) (rows df)\<rparr>"
proof -
  let ?df1 = "assign col (map (to_numeric p) (column df col)) df"
  have df1: "?df1 = df\<lparr>rows := map (\<lambda>r. r(col \<mapsto> to_numeric p (cell_at r col))) (rows df)\<rparr>"
    using assms by (simp add: assign_map)
  have c1: "column ?df1 col = coerced p col (rows df)"
    unfolding df1 by (simp add: column_def coerced_def o_def)
  have in1: "col \<in> set (columns ?df1)"
    unfolding df1 using assms by simp
  have "fill_column p col df =
          assign col (map (impute (series_mean (coerced p col (rows df)))) (column ?df1 col)) ?df1"
    using assms by (simp add: fill_column_def Let_def c1 fillna_impute)
  also have "\<dots> = \<lparr>columns = columns ?df1,
       rows = map (\<lambda>r. r(col \<mapsto> impute (series_mean (coerced p col (rows df))) (cell_at r col))) (rows ?df1)\<rparr>"
    using in1 by (simp only: assign_map if_True)
  also have "\<dots> = df\<lparr>rows := map (\<lambda>r. r(col \<mapsto> impute (series_mean (coerced p col (rows df)))
                                       (to_numeric p (cell_at r col)))) (rows df)\<rparr>"
    unfolding df1 by (simp add: o_def)
  finally show ?thesis .
qed

lemma columns_fill_column [simp]: "columns (fill_column p col df) = columns df"
  by (cases "col \<in> set (columns df)") (simp_all add: fill_column_rows, simp add: fill_column_def)

lemma length_rows_fill_column [simp]: "length (rows (fill_column p col df)) = length (rows df)"
  by (cases "col \<in> set (columns df)") (simp_all add: fill_column_rows, simp add: fill_column_def)

lemma fill_column_other:
  "c \<noteq> col \<Longrightarrow> map (\<lambda>r. r c) (rows (fill_column p col df)) = map (\<lambda>r. r c) (rows df)"
  by (cases "col \<in> set (columns df)") (simp_all add: fill_column_rows o_def, simp add: fill_column_def)

lemma column_raw: "column df c = map (\<lambda>v. case v of None \<Rightarrow> NaN | Some x \<Rightarrow> x) (map (\<lambda>r. r c) (rows df))"
  by (simp add: column_def cell_at_def o_def)

lemma column_fill_column_other:
  "c \<noteq> col \<Longrightarrow> column (fill_column p col df) c = column df c"
  using fill_column_other[of c col p df] by (simp add: column_raw)

lemma to_datetime_notna: "\<not> isna (to_datetime p v) \<Longrightarrow> \<not> isna v"
  by (auto simp: to_datetime_def isna_def)

lemma filter_absorb: "(\<And>x. P x \<Longrightarrow> N x) \<Longrightarrow> filter P (filter N xs) = filter P xs"
  by (induction xs) auto

lemma clean_unfold:
  assumes "''Date'' \<in> set (columns df)"
  shows "clean_weather_data p df =
    Inr (fold (fill_column p) measurements
      \<lparr>columns = kept_columns df,
       rows = map (\<lambda>r. (r(''Date'' \<mapsto> to_datetime p (cell_at r ''Date''))) |` set (kept_columns df))
                  (retained p df)\<rparr>)"
proof -
  let ?td = "\<lambda>r. to_datetime p (cell_at r ''Date'')"
  let ?ne = "\<lambda>r. list_ex (\<lambda>c. \<not> isna (cell_at r c)) (columns df)"
  have ne: "\<not> isna (?td r) \<Longrightarrow> ?ne r" for r
    using assms to_datetime_notna[of p "cell_at r ''Date''"] by (auto simp: list_ex_iff)
  have f: "filter (\<lambda>r. \<not> isna (cell_at r ''Date''))
             (map (\<lambda>r. r(''Date'' \<mapsto> ?td r)) (filter ?ne (rows df)))
           = map (\<lambda>r. r(''Date'' \<mapsto> ?td r)) (retained p df)"
    unfolding retained_def filter_map o_def
    using filter_absorb[of "\<lambda>r. \<not> isna (?td r)" ?ne "rows df"] ne by simp
  show ?thesis
    using assms
    by (simp add: clean_weather_data_def Let_def dropna_all_def assign_map dropna_subset_def
        select_def kept_columns_def f o_def del: restrict_fun_upd)
qed

lemma columns_fold_fill [simp]: "columns (fold (fill_column p) ms df) = columns df"
  by (induction ms arbitrary: df) simp_all

lemma length_rows_fold_fill [simp]: "length (rows (fold (fill_column p) ms df)) = length (rows df)"
  by (induction ms arbitrary: df) simp_all

lemma raw_fill_column_other: "c \<noteq> col \<Longrightarrow> raw (fill_column p col df) c = raw df c"
  by (simp add: raw_def fill_column_other)

lemma raw_fold_fill_other: "c \<notin> set ms \<Longrightarrow> raw (fold (fill_column p) ms df) c = raw df c"
  by (induction ms arbitrary: df) (auto simp: raw_fill_column_other)

lemma column_from_raw: "column df c = map (\<lambda>v. case v of None \<Rightarrow> NaN | Some x \<Rightarrow> x) (raw df c)"
  by (simp add: column_def cell_at_def raw_def o_def)

lemma raw_fill_column_same:
  assumes "col \<in> set (columns df)"
  shows "raw (fill_column p col df) col =
         map Some (fillna (series_mean (map (to_numeric p) (column df col))) (map (to_numeric p) (column df col)))"
  using assms
  by (simp add: fill_column_rows raw_def column_def o_def fillna_impute coerced_def)

lemma raw_fold_fill:
  assumes "col \<in> set measurements" "col \<in> set (columns df)"
  shows "raw (fold (fill_column p) measurements df) col =
         map Some (fillna (series_mean (map (to_numeric p) (column df col))) (map (to_numeric p) (column df col)))"
proof -
  let ?T = "''Temperature''" and ?R = "''Rainfall''" and ?H = "''Humidity''"
  let ?d1 = "fill_column p ?T df"
  let ?d2 = "fill_column p ?R ?d1"
  have fold: "fold (fill_column p) measurements df = fill_column p ?H ?d2"
    by (simp add: measurements_def)
  consider "col = ?T" | "col = ?R" | "col = ?H"
    using assms(1) by (auto simp: measurements_def)
  then show ?thesis
  proof cases
    case 1
    have "raw (fill_column p ?H ?d2) ?T = raw ?d1 ?T"
      by (simp add: raw_fill_column_other)
    with 1 assms(2) show ?thesis
      by (simp add: fold raw_fill_column_same)
  next
    case 2
    have "raw (fill_column p ?H ?d2) ?R = raw ?d2 ?R"
      by (simp add: raw_fill_column_other)
    moreover have "column ?d1 ?R = column df ?R"
      by (simp add: column_fill_column_other)
    ultimately show ?thesis
      using 2 assms(2) by (simp add: fold raw_fill_column_same)
  next
    case 3
    have "column ?d2 ?H = column df ?H"
      by (simp add: column_fill_column_other)
    then show ?thesis
      using 3 assms(2) by (simp add: fold raw_fill_column_same)
  qed
qed

lemma clean_error: "''Date'' \<notin> set (columns df) \<Longrightarrow> clean_weather_data p df = Inl (KeyError ''Date'')"
  by (simp add: clean_weather_data_def dropna_all_def Let_def)

lemma clean_Inr_iff: "(\<exists>out. clean_weather_data p df = Inr out) \<longleftrightarrow> ''Date'' \<in> set (columns df)"
  by (cases "''Date'' \<in> set (columns df)") (simp_all add: clean_unfold clean_error)

lemma measurement_in_cols: "col \<in> set measurements \<Longrightarrow> col \<in> set cols \<and> col \<noteq> ''Date''"
  by (auto simp: measurements_def cols_def)

lemma Date_in_kept: "''Date'' \<in> set (columns df) \<Longrightarrow> ''Date'' \<in> set (kept_columns df)"
  by (simp add: kept_columns_def cols_def)

lemma clean_columns:
  assumes "clean_weather_data p df = Inr out"
  shows "columns out = kept_columns df"
proof -
  have "''Date'' \<in> set (columns df)" using assms clean_Inr_iff by blast
  with assms show ?thesis by (auto simp: clean_unfold)
qed

lemma clean_length:
  assumes "clean_weather_data p df = Inr out"
  shows "length (rows out) = length (retained p df)"
proof -
  have "''Date'' \<in> set (columns df)" using assms clean_Inr_iff by blast
  with assms show ?thesis by (auto simp: clean_unfold)
qed

lemma clean_raw_date:
  assumes "clean_weather_data p df = Inr out"
  shows "raw out ''Date'' = map (\<lambda>r. Some (parsed_date p r)) (retained p df)"
proof -
  have d: "''Date'' \<in> set (columns df)" using assms clean_Inr_iff by blast
  have n: "''Date'' \<notin> set measurements" by (simp add: measurements_def)
  from assms d have "raw out ''Date'' = raw \<lparr>columns = kept_columns df,
       rows = map (\<lambda>r. (r(''Date'' \<mapsto> to_datetime p (cell_at r ''Date''))) |` set (kept_columns df))
                  (retained p df)\<rparr> ''Date''"
    by (auto simp: clean_unfold raw_fold_fill_other[OF n])
  also have "\<dots> = map (\<lambda>r. Some (parsed_date p r)) (retained p df)"
    using Date_in_kept[OF d] by (simp add: raw_def parsed_date_def o_def)
  finally show ?thesis .
qed

lemma clean_raw_measurement:
  assumes "clean_weather_data p df = Inr out" "col \<in> set measurements" "col \<in> set (columns df)"
  shows "raw out col = map Some (fillna (series_mean (coerced_column p df col)) (coerced_column p df col))"
proof -
  have d: "''Date'' \<in> set (columns df)" using assms(1) clean_Inr_iff by blast
  let ?df4 = "\<lparr>columns = kept_columns df,
       rows = map (\<lambda>r. (r(''Date'' \<mapsto> to_datetime p (cell_at r ''Date''))) |` set (kept_columns df))
                  (retained p df)\<rparr>"
  have k: "col \<in> set (kept_columns df)" "col \<noteq> ''Date''"
    using assms(2,3) measurement_in_cols by (auto simp: kept_columns_def)
  have c: "map (to_numeric p) (column ?df4 col) = coerced_column p df col"
    using k by (simp add: column_def coerced_column_def o_def cell_at_def)
  have "out = fold (fill_column p) measurements ?df4"
    using assms(1) d by (simp add: clean_unfold)
  then show ?thesis
    using raw_fold_fill[of col ?df4 p] assms(2) k(1) by (simp add: c)
qed

lemma clean_raw_absent:
  assumes "clean_weather_data p df = Inr out" "c \<notin> set (kept_columns df)"
  shows "raw out c = replicate (length (retained p df)) None"
proof -
  have d: "''Date'' \<in> set (columns df)" using assms(1) clean_Inr_iff by blast
  let ?df4 = "\<lparr>columns = kept_columns df,
       rows = map (\<lambda>r. (r(''Date'' \<mapsto> to_datetime p (cell_at r ''Date''))) |` set (kept_columns df))
                  (retained p df)\<rparr>"
  have out: "out = fold (fill_column p) measurements ?df4"
    using assms(1) d by (simp add: clean_unfold)
  have step: "c \<notin> set (columns x) \<Longrightarrow> raw (fill_column p m x) c = raw x c" for m x
    by (cases "c = m") (simp add: fill_column_def, simp add: raw_fill_column_other)
  have "raw (fold (fill_column p) ms x) c = raw x c" if "c \<notin> set (columns x)" for ms x
    using that by (induction ms arbitrary: x) (simp_all add: step)
  from this[of ?df4 measurements] assms(2) have "raw out c = raw ?df4 c"
    by (simp add: out)
  also have "\<dots> = replicate (length (retained p df)) None"
    using assms(2) by (simp add: raw_def o_def map_replicate_const)
  finally show ?thesis .
qed

lemma column_from_raw_Some: "raw df c = map Some s \<Longrightarrow> column df c = s"
  by (simp add: column_from_raw o_def)

lemma cleaned_column_measurement:
  assumes "''Date'' \<in> set (columns df)" "col \<in> set measurements" "col \<in> set (columns df)"
  shows "cleaned_column p df col =
         Inr (fillna (series_mean (coerced_column p df col)) (coerced_column p df col))"
proof -
  obtain out where out: "clean_weather_data p df = Inr out"
    using assms(1) clean_Inr_iff by blast
  from clean_raw_measurement[OF out assms(2,3)] show ?thesis
    by (simp add: cleaned_column_def out column_from_raw_Some)
qed

lemma cleaned_column_date:
  assumes "''Date'' \<in> set (columns df)"
  shows "cleaned_column p df ''Date'' = Inr (map (parsed_date p) (retained p df))"
proof -
  obtain out where out: "clean_weather_data p df = Inr out"
    using assms(1) clean_Inr_iff by blast
  have "raw out ''Date'' = map Some (map (parsed_date p) (retained p df))"
    using clean_raw_date[OF out] by (simp add: o_def)
  then show ?thesis
    by (simp add: cleaned_column_def out column_from_raw_Some)
qed

lemma to_numeric_cases: "to_numeric p v = NaN \<or> (\<exists>x. to_numeric p v = Num x)"
  by (simp add: to_numeric_def split: cell.splits option.splits)

lemma nums_empty_all_missing:
  "nums (map (to_numeric p) s) = [] \<Longrightarrow> map (to_numeric p) s = replicate (length s) NaN"
proof (induction s)
  case Nil
  then show ?case by simp
next
  case (Cons v s)
  then show ?case
    using to_numeric_cases[of p v] by auto
qed

lemma coerced_column_map:
  "coerced_column p df col = map (to_numeric p) (map (\<lambda>r. cell_at r col) (retained p df))"
  by (simp add: coerced_column_def o_def)

lemma scenario_pandas_reads: "reads_scenario scenario_pandas"
  by (simp add: reads_scenario_def scenario_pandas_def)

lemma scenario_retained: "reads_scenario p \<Longrightarrow> retained p scenario = rows scenario"
  by (simp add: retained_def scenario_def reads_scenario_def to_datetime_def isna_def cell_at_def)

lemma scenario_coerced_temperature:
  "reads_scenario p \<Longrightarrow> coerced_column p scenario ''Temperature'' = [Num 10, NaN, Num 20]"
  by (simp add: coerced_column_def scenario_retained)
     (simp add: scenario_def reads_scenario_def to_numeric_def cell_at_def)

subsection \<open>Imputation\<close>

text \<open>
  Claim C2. For a measurement column of the input with at least one numeric value among the
  retained rows, the cleaner returns, and the column of its result is the coerced column in
  which every missing cell is replaced by the arithmetic mean of the column's own numeric
  values; the other cells are the coerced values. The mean is the one mean of the coerced
  column: it depends on no other column and on no imputed cell.
\<close>
theorem imputed_cells_equal_column_mean:
  assumes "''Date'' \<in> set (columns df)" "col \<in> set measurements" "col \<in> set (columns df)"
    and "nums (coerced_column p df col) \<noteq> []"
  shows "cleaned_column p df col =
         Inr (map (\<lambda>v. if v = NaN then Num (arithmetic_mean (nums (coerced_column p df col))) else v)
                  (coerced_column p df col))"
  using assms
  by (simp add: cleaned_column_measurement fillna_def series_mean_def isna_def arithmetic_mean_def)

theorem imputed_cells_equal_column_mean_witness:
  "''Date'' \<in> set (columns scenario) \<and> ''Temperature'' \<in> set measurements
   \<and> ''Temperature'' \<in> set (columns scenario)
   \<and> nums (coerced_column scenario_pandas scenario ''Temperature'') = [10, 20]
   \<and> cleaned_column scenario_pandas scenario ''Temperature'' = Inr [Num 10, Num 15, Num 20]"
proof -
  have h: "''Date'' \<in> set (columns scenario)" "''Temperature'' \<in> set measurements"
    "''Temperature'' \<in> set (columns scenario)"
    by (simp_all add: scenario_def measurements_def)
  have n: "nums (coerced_column scenario_pandas scenario ''Temperature'') \<noteq> []"
    by (simp add: scenario_coerced_temperature[OF scenario_pandas_reads])
  show ?thesis
    using h imputed_cells_equal_column_mean[OF h n]
    by (simp add: scenario_coerced_temperature[OF scenario_pandas_reads] arithmetic_mean_def)
qed

text \<open>
  Claim C10. When a measurement column of the input has no numeric value among the retained
  rows, the cleaner still returns a table (no exception), and every cell of that column in
  the result is missing.
\<close>
theorem column_without_numbers_stays_missing:
  assumes "''Date'' \<in> set (columns df)" "col \<in> set measurements" "col \<in> set (columns df)"
    and "nums (coerced_column p df col) = []"
  shows "cleaned_column p df col = Inr (replicate (length (retained p df)) NaN)"
proof -
  have "coerced_column p df col = replicate (length (retained p df)) NaN"
    using assms(4) nums_empty_all_missing[of p "map (\<lambda>r. cell_at r col) (retained p df)"]
    by (simp add: coerced_column_map)
  then show ?thesis
    using assms by (simp add: cleaned_column_measurement fillna_def series_mean_def isna_def)
qed

lemma humidity_retained: "retained scenario_pandas humidity_all_missing = rows humidity_all_missing"
  by (simp add: retained_def humidity_all_missing_def scenario_pandas_def to_datetime_def isna_def cell_at_def)

lemma humidity_coerced:
  "coerced_column scenario_pandas humidity_all_missing ''Humidity'' = [NaN, NaN]"
  by (simp add: coerced_column_def humidity_retained)
     (simp add: humidity_all_missing_def scenario_pandas_def to_numeric_def cell_at_def)

theorem column_without_numbers_stays_missing_witness:
  "''Date'' \<in> set (columns humidity_all_missing) \<and> ''Humidity'' \<in> set measurements
   \<and> ''Humidity'' \<in> set (columns humidity_all_missing)
   \<and> nums (coerced_column scenario_pandas humidity_all_missing ''Humidity'') = []
   \<and> cleaned_column scenario_pandas humidity_all_missing ''Humidity'' = Inr [NaN, NaN]"
proof -
  have h: "''Date'' \<in> set (columns humidity_all_missing)" "''Humidity'' \<in> set measurements"
    "''Humidity'' \<in> set (columns humidity_all_missing)"
    by (simp_all add: humidity_all_missing_def measurements_def)
  have n: "nums (coerced_column scenario_pandas humidity_all_missing ''Humidity'') = []"
    by (simp add: humidity_coerced)
  have l: "length (retained scenario_pandas humidity_all_missing) = 2"
    by (simp add: humidity_retained) (simp add: humidity_all_missing_def)
  show ?thesis
    using h n column_without_numbers_stays_missing[OF h n]
    by (simp add: l numeral_2_eq_2)
qed

subsection \<open>Cleaning a cleaned table\<close>

lemma rows_eqI:
  assumes "length xs = length ys" and "\<And>c. map (\<lambda>r. r c) xs = map (\<lambda>r. r c) ys"
  shows "xs = (ys :: row list)"
proof (rule nth_equalityI)
  show "length xs = length ys" by fact
next
  fix i assume i: "i < length xs"
  show "xs ! i = ys ! i"
  proof (rule ext)
    fix c
    have "map (\<lambda>r. r c) xs ! i = map (\<lambda>r. r c) ys ! i"
      by (simp only: assms(2))
    then show "(xs ! i) c = (ys ! i) c"
      using i assms(1) by simp
  qed
qed

lemma frame_eqI:
  assumes "columns a = columns b" "length (rows a) = length (rows b)" "\<And>c. raw a c = raw b c"
  shows "a = (b :: frame)"
proof -
  have "rows a = rows b"
    using assms(2,3) by (intro rows_eqI) (simp_all add: raw_def)
  with assms(1) show ?thesis by simp
qed

lemma to_datetime_cases: "to_datetime p v = NaN \<or> (\<exists>d. to_datetime p v = Stamp d)"
  by (simp add: to_datetime_def split: cell.splits option.splits)

lemma to_datetime_Stamp [simp]: "to_datetime p (Stamp d) = Stamp d"
  by (simp add: to_datetime_def)

lemma to_numeric_idem [simp]: "to_numeric p (to_numeric p v) = to_numeric p v"
  using to_numeric_cases[of p v] by (auto simp: to_numeric_def)

lemma clean_row_date:
  assumes "clean_weather_data p df = Inr out" "r \<in> set (rows out)"
  shows "\<exists>r0 d. r0 \<in> set (retained p df) \<and> parsed_date p r0 = Stamp d \<and> r ''Date'' = Some (Stamp d)"
proof -
  have "r ''Date'' \<in> set (raw out ''Date'')"
    using assms(2) by (auto simp: raw_def)
  then obtain r0 where r0: "r0 \<in> set (retained p df)" "r ''Date'' = Some (parsed_date p r0)"
    by (auto simp: clean_raw_date[OF assms(1)])
  from r0(1) have "\<not> isna (parsed_date p r0)"
    by (simp add: retained_def parsed_date_def)
  then obtain d where "parsed_date p r0 = Stamp d"
    using to_datetime_cases[of p "cell_at r0 ''Date''"] by (auto simp: parsed_date_def isna_def)
  with r0 show ?thesis by auto
qed

lemma clean_retained_again:
  assumes "clean_weather_data p df = Inr out"
  shows "retained p out = rows out"
proof -
  have "\<not> isna (to_datetime p (cell_at r ''Date''))" if "r \<in> set (rows out)" for r
    using clean_row_date[OF assms that] by (auto simp: cell_at_def isna_def)
  then show ?thesis by (simp add: retained_def)
qed

lemma clean_parsed_again:
  assumes "clean_weather_data p df = Inr out"
  shows "map (\<lambda>r. Some (parsed_date p r)) (rows out) = raw out ''Date''"
proof -
  have "Some (parsed_date p r) = r ''Date''" if "r \<in> set (rows out)" for r
    using clean_row_date[OF assms that] by (auto simp: cell_at_def parsed_date_def)
  then show ?thesis by (simp add: raw_def)
qed

lemma kept_columns_idem:
  assumes "columns out = kept_columns df"
  shows "kept_columns out = kept_columns df"
  unfolding kept_columns_def assms by (rule filter_cong) auto

lemma nums_replicate_NaN [simp]: "nums (replicate n NaN) = []"
  by (induction n) simp_all

lemma in_kept_columns: "c \<in> set (kept_columns df) \<longleftrightarrow> c \<in> set cols \<and> c \<in> set (columns df)"
  by (simp add: kept_columns_def)

lemma in_cols: "c \<in> set cols \<longleftrightarrow> c = ''Date'' \<or> c \<in> set measurements"
  by (auto simp: cols_def measurements_def)

lemma fillna_settled:
  assumes "t = fillna (series_mean (map (to_numeric p) s)) (map (to_numeric p) s)"
  shows "fillna (series_mean (map (to_numeric p) t)) (map (to_numeric p) t) = t"
proof (cases "nums (map (to_numeric p) s) = []")
  case True
  then have s: "map (to_numeric p) s = replicate (length s) NaN"
    by (rule nums_empty_all_missing)
  have t: "t = replicate (length s) NaN"
    by (simp add: assms s fillna_def series_mean_def isna_def)
  have "map (to_numeric p) t = t"
    by (simp add: t to_numeric_def)
  then show ?thesis
    by (simp add: t fillna_def series_mean_def isna_def)
next
  case False
  have num: "\<exists>x. v = Num x" if "v \<in> set t" for v
  proof -
    from that obtain u where u: "u \<in> set s"
      "v = (if isna (to_numeric p u) then series_mean (map (to_numeric p) s) else to_numeric p u)"
      by (auto simp: assms fillna_def)
    show ?thesis
      using u(2) False to_numeric_cases[of p u] by (auto simp: series_mean_def isna_def)
  qed
  have n: "to_numeric p v = v \<and> \<not> isna v" if "v \<in> set t" for v
    using num[OF that] by (auto simp: to_numeric_def isna_def)
  then have "map (to_numeric p) t = t"
    by (simp add: map_idI)
  then show ?thesis
    using n by (simp add: fillna_def map_idI)
qed

lemma clean_fixpoint:
  assumes "clean_weather_data p df = Inr out"
  shows "clean_weather_data p out = Inr out"
proof -
  have d: "''Date'' \<in> set (columns df)" using assms clean_Inr_iff by blast
  have co: "columns out = kept_columns df" by (rule clean_columns[OF assms])
  have d': "''Date'' \<in> set (columns out)" using d by (simp add: co Date_in_kept)
  then obtain out' where out': "clean_weather_data p out = Inr out'"
    using clean_Inr_iff by blast
  have k: "kept_columns out = kept_columns df" by (rule kept_columns_idem[OF co])
  have r: "retained p out = rows out" by (rule clean_retained_again[OF assms])
  have "out' = out"
  proof (rule frame_eqI)
    show "columns out' = columns out"
      by (simp add: clean_columns[OF out'] k co)
    show "length (rows out') = length (rows out)"
      by (simp add: clean_length[OF out'] r)
    fix c
    consider "c = ''Date''" | "c \<in> set measurements" "c \<in> set (columns out)"
      | "c \<notin> set (kept_columns out)"
      using in_kept_columns[of c out] in_cols[of c] by blast
    then show "raw out' c = raw out c"
    proof cases
      case 1
      then show ?thesis
        by (simp add: clean_raw_date[OF out'] r clean_parsed_again[OF assms])
    next
      case 2
      then have cdf: "c \<in> set (columns df)" by (simp add: co in_kept_columns)
      let ?s = "map (\<lambda>r. cell_at r c) (retained p df)"
      let ?t = "fillna (series_mean (map (to_numeric p) ?s)) (map (to_numeric p) ?s)"
      have ro: "raw out c = map Some ?t"
        using clean_raw_measurement[OF assms 2(1) cdf] by (simp add: coerced_column_map)
      then have "column out c = ?t" by (rule column_from_raw_Some)
      then have "coerced_column p out c = map (to_numeric p) ?t"
        by (simp add: coerced_column_map r column_def)
      then have "raw out' c = map Some (fillna (series_mean (map (to_numeric p) ?t)) (map (to_numeric p) ?t))"
        using clean_raw_measurement[OF out' 2] by simp
      also have "\<dots> = map Some ?t"
        using fillna_settled[of ?t p ?s] by simp
      finally show ?thesis by (simp add: ro)
    next
      case 3
      from clean_raw_absent[OF out' 3] clean_raw_absent[OF assms, of c] 3 show ?thesis
        by (simp add: k r clean_length[OF assms])
    qed
  qed
  with out' show ?thesis by simp
qed

subsection \<open>The scenario, cleaned\<close>

lemma scenario_coerced_rainfall:
  "reads_scenario p \<Longrightarrow> coerced_column p scenario ''Rainfall'' = [Num 0, Num 5, Num 10]"
  by (simp add: coerced_column_def scenario_retained)
     (simp add: scenario_def to_numeric_def cell_at_def)

lemma scenario_coerced_humidity:
  "reads_scenario p \<Longrightarrow> coerced_column p scenario ''Humidity'' = [Num 50, Num 60, Num 70]"
  by (simp add: coerced_column_def scenario_retained)
     (simp add: scenario_def to_numeric_def cell_at_def)

lemma scenario_parsed:
  "reads_scenario p \<Longrightarrow>
   map (\<lambda>r. Some (parsed_date p r)) (rows scenario) =
     [Some (Stamp \<lparr>year = 2023, month = 1, day = 5\<rparr>),
      Some (Stamp \<lparr>year = 2023, month = 1, day = 6\<rparr>),
      Some (Stamp \<lparr>year = 2023, month = 2, day = 1\<rparr>)]"
  by (simp add: scenario_def reads_scenario_def parsed_date_def to_datetime_def cell_at_def)

lemma scenario_clean:
  assumes "reads_scenario p"
  shows "clean_weather_data p scenario = Inr scenario_cleaned"
proof -
  note rs = scenario_retained[OF assms]
  have d: "''Date'' \<in> set (columns scenario)" by (simp add: scenario_def)
  then obtain out where out: "clean_weather_data p scenario = Inr out"
    using clean_Inr_iff by blast
  have k: "kept_columns scenario = cols"
    by (simp add: kept_columns_def scenario_def cols_def)
  have l: "length (rows scenario) = 3" by (simp add: scenario_def)
  have "out = scenario_cleaned"
  proof (rule frame_eqI)
    show "columns out = columns scenario_cleaned"
      by (simp add: clean_columns[OF out] k cols_def scenario_cleaned_def)
    show "length (rows out) = length (rows scenario_cleaned)"
      by (simp add: clean_length[OF out] rs l scenario_cleaned_def)
    fix c
    consider "c = ''Date''" | "c = ''Temperature''" | "c = ''Rainfall''" | "c = ''Humidity''"
      | "c \<notin> set (kept_columns scenario)"
      by (auto simp: k cols_def)
    then show "raw out c = raw scenario_cleaned c"
    proof cases
      case 1
      then show ?thesis
        by (simp add: clean_raw_date[OF out] rs scenario_parsed[OF assms])
           (simp add: raw_def scenario_cleaned_def)
    next
      case 2
      have "raw out ''Temperature'' = map Some [Num 10, Num 15, Num 20]"
        using clean_raw_measurement[OF out, of "''Temperature''"]
        by (simp add: measurements_def scenario_def[THEN arg_cong, of columns]
            scenario_coerced_temperature[OF assms] fillna_def series_mean_def isna_def)
      with 2 show ?thesis by (simp add: raw_def scenario_cleaned_def)
    next
      case 3
      have "raw out ''Rainfall'' = map Some [Num 0, Num 5, Num 10]"
        using clean_raw_measurement[OF out, of "''Rainfall''"]
        by (simp add: measurements_def scenario_def[THEN arg_cong, of columns]
            scenario_coerced_rainfall[OF assms] fillna_def series_mean_def isna_def)
      with 3 show ?thesis by (simp add: raw_def scenario_cleaned_def)
    next
      case 4
      have "raw out ''Humidity'' = map Some [Num 50, Num 60, Num 70]"
        using clean_raw_measurement[OF out, of "''Humidity''"]
        by (simp add: measurements_def scenario_def[THEN arg_cong, of columns]
            scenario_coerced_humidity[OF assms] fillna_def series_mean_def isna_def)
      with 4 show ?thesis by (simp add: raw_def scenario_cleaned_def)
    next
      case 5
      then have "c \<noteq> ''Date''" "c \<noteq> ''Temperature''" "c \<noteq> ''Rainfall''" "c \<noteq> ''Humidity''"
        by (auto simp: k cols_def)
      then show ?thesis
        using clean_raw_absent[OF out 5]
        by (simp add: rs l raw_def scenario_cleaned_def numeral_3_eq_3)
    qed
  qed
  with out show ?thesis by simp
qed

subsection \<open>Order of the steps, idempotence, and what a surviving row holds\<close>

lemma retained_survivors:
  assumes "''Date'' \<in> set (columns df)"
  shows "retained p df = survivors p df"
proof -
  have "\<not> entirely_empty df r" if "\<not> isna (parsed_date p r)" for r
    using that assms to_datetime_notna[of p "cell_at r ''Date''"]
    by (auto simp: entirely_empty_def parsed_date_def list_all_iff)
  then show ?thesis
    unfolding retained_def survivors_def parsed_date_def[symmetric]
    by (intro filter_cong) auto
qed

lemma retained_of_retained: "retained p (df\<lparr>rows := retained p df\<rparr>) = retained p df"
  by (simp add: retained_def)

lemma clean_only_retained:
  "clean_weather_data p (df\<lparr>rows := retained p df\<rparr>) = clean_weather_data p df"
proof (cases "''Date'' \<in> set (columns df)")
  case True
  then show ?thesis
    by (simp add: clean_unfold retained_of_retained kept_columns_def)
next
  case False
  then show ?thesis by (simp add: clean_error)
qed

text \<open>
  Claim C8. The cleaner drops the entirely empty rows, then parses Date and drops the rows
  whose date does not parse, raising nothing; only then does it coerce and impute. So it
  returns whenever the table has a Date column; its rows are, in order, the rows that are
  not entirely empty and whose date parses; the result is the one it gives on the table of
  those rows alone; and each measurement column is coerced and imputed over those rows only.
\<close>

theorem rows_dropped_before_coercion:
  assumes "''Date'' \<in> set (columns df)"
  shows "\<exists>out. clean_weather_data p df = Inr out
           \<and> clean_weather_data p (df\<lparr>rows := survivors p df\<rparr>) = Inr out
           \<and> column out ''Date'' = map (parsed_date p) (survivors p df)
           \<and> (\<forall>col \<in> set measurements. col \<in> set (columns df) \<longrightarrow>
                 column out col =
                   fillna (series_mean (map (\<lambda>r. to_numeric p (cell_at r col)) (survivors p df)))
                          (map (\<lambda>r. to_numeric p (cell_at r col)) (survivors p df)))"
proof -
  obtain out where out: "clean_weather_data p df = Inr out"
    using assms clean_Inr_iff by blast
  have s: "survivors p df = retained p df"
    using retained_survivors[OF assms] by simp
  have 1: "clean_weather_data p (df\<lparr>rows := survivors p df\<rparr>) = Inr out"
    by (simp add: s clean_only_retained out)
  have 2: "column out ''Date'' = map (parsed_date p) (survivors p df)"
    using cleaned_column_date[OF assms, of p] by (simp add: cleaned_column_def out s)
  have 3: "column out col =
             fillna (series_mean (map (\<lambda>r. to_numeric p (cell_at r col)) (survivors p df)))
                    (map (\<lambda>r. to_numeric p (cell_at r col)) (survivors p df))"
    if "col \<in> set measurements" "col \<in> set (columns df)" for col
    using cleaned_column_measurement[OF assms that, of p]
    by (simp add: cleaned_column_def out s coerced_column_def)
  from out 1 2 3 show ?thesis by blast
qed

lemma gaps_survivors: "survivors scenario_pandas scenario_with_gaps = rows scenario"
  by (simp add: survivors_def scenario_with_gaps_def entirely_empty_def parsed_date_def
      scenario_pandas_def to_datetime_def isna_def cell_at_def scenario_def)

theorem rows_dropped_before_coercion_witness:
  "''Date'' \<in> set (columns scenario_with_gaps)
   \<and> length (rows scenario_with_gaps) = 5
   \<and> clean_weather_data scenario_pandas scenario_with_gaps = Inr scenario_cleaned"
proof -
  have d: "''Date'' \<in> set (columns scenario_with_gaps)"
    by (simp add: scenario_with_gaps_def)
  have e: "scenario_with_gaps\<lparr>rows := rows scenario\<rparr> = scenario"
    by (simp add: scenario_with_gaps_def scenario_def)
  show ?thesis
    using d rows_dropped_before_coercion[OF d, of scenario_pandas]
    by (auto simp: gaps_survivors e scenario_clean[OF scenario_pandas_reads])
       (simp add: scenario_with_gaps_def)
qed

text \<open>
  Claim C3. The cleaner is idempotent: applied to its own output it returns the same table,
  and it retains every row of it.
\<close>

theorem cleaning_is_idempotent:
  assumes "clean_weather_data p df = Inr out"
  shows "clean_weather_data p out = Inr out \<and> retained p out = rows out"
  using assms by (simp add: clean_fixpoint clean_retained_again)

theorem cleaning_is_idempotent_witness:
  "clean_weather_data scenario_pandas scenario = Inr scenario_cleaned
   \<and> clean_weather_data scenario_pandas scenario_cleaned = Inr scenario_cleaned
   \<and> retained scenario_pandas scenario_cleaned = rows scenario_cleaned"
  using cleaning_is_idempotent[OF scenario_clean[OF scenario_pandas_reads]]
    scenario_clean[OF scenario_pandas_reads] by simp

text \<open>
  Claim C1, as stated, fails: a table with one row whose date parses and whose temperature is
  not a number keeps the row, with the temperature missing.
\<close>

theorem unreadable_temperature_stays_missing:
  "cleaned_column scenario_pandas unreadable_temperature ''Date''
     = Inr [Stamp \<lparr>year = 2023, month = 1, day = 6\<rparr>]
   \<and> cleaned_column scenario_pandas unreadable_temperature ''Temperature'' = Inr [NaN]"
proof -
  have d: "''Date'' \<in> set (columns unreadable_temperature)"
    "''Temperature'' \<in> set (columns unreadable_temperature)"
    by (simp_all add: unreadable_temperature_def)
  have r: "retained scenario_pandas unreadable_temperature = rows unreadable_temperature"
    by (simp add: retained_def unreadable_temperature_def scenario_pandas_def to_datetime_def
        isna_def cell_at_def)
  have t: "''Temperature'' \<in> set measurements" by (simp add: measurements_def)
  have 1: "cleaned_column scenario_pandas unreadable_temperature ''Date''
     = Inr [Stamp \<lparr>year = 2023, month = 1, day = 6\<rparr>]"
    by (simp add: cleaned_column_date[OF d(1)] r)
       (simp add: unreadable_temperature_def parsed_date_def scenario_pandas_def to_datetime_def
        cell_at_def)
  have "coerced_column scenario_pandas unreadable_temperature ''Temperature'' = [NaN]"
    by (simp add: coerced_column_def r)
       (simp add: unreadable_temperature_def scenario_pandas_def to_numeric_def cell_at_def)
  then have 2: "cleaned_column scenario_pandas unreadable_temperature ''Temperature'' = Inr [NaN]"
    by (simp add: cleaned_column_measurement[OF d(1) t d(2)] fillna_def series_mean_def isna_def)
  from 1 2 show ?thesis by simp
qed

lemma to_datetime_valid:
  assumes "to_datetime p v = Stamp d" "valid_library p"
    and "case v of Stamp e \<Rightarrow> valid_date e | _ \<Rightarrow> True"
  shows "valid_date d"
  using assms
  by (auto simp: to_datetime_def valid_library_def split: cell.splits option.splits)

text \<open>
  Claim C1, amended. Every row that survives cleaning holds a timestamp in Date, a valid
  calendar date when the library hands out valid dates and the timestamps of the input are
  valid; and it holds a number in every measurement column that the input has and that has
  at least one numeric value among the retained rows.
\<close>

theorem surviving_rows_dated_and_filled:
  assumes "clean_weather_data p df = Inr out" and "r \<in> set (rows out)"
  shows "(\<exists>d. r ''Date'' = Some (Stamp d) \<and> (valid_library p \<and> valid_stamps df \<longrightarrow> valid_date d))
       \<and> (\<forall>col \<in> set measurements.
            col \<in> set (columns df) \<and> nums (coerced_column p df col) \<noteq> [] \<longrightarrow>
            (\<exists>x. r col = Some (Num x)))"
proof
  obtain r0 d where r0: "r0 \<in> set (retained p df)" "parsed_date p r0 = Stamp d"
    "r ''Date'' = Some (Stamp d)"
    using clean_row_date[OF assms] by blast
  have "valid_date d" if "valid_library p" "valid_stamps df"
  proof -
    have "r0 \<in> set (rows df)" using r0(1) by (simp add: retained_def)
    then have "case cell_at r0 ''Date'' of Stamp e \<Rightarrow> valid_date e | _ \<Rightarrow> True"
      using that(2) by (simp add: valid_stamps_def list_all_iff)
    with r0(2) that(1) show ?thesis
      by (auto simp: parsed_date_def intro: to_datetime_valid)
  qed
  with r0(3) show "\<exists>d. r ''Date'' = Some (Stamp d) \<and> (valid_library p \<and> valid_stamps df \<longrightarrow> valid_date d)"
    by blast
next
  show "\<forall>col \<in> set measurements.
            col \<in> set (columns df) \<and> nums (coerced_column p df col) \<noteq> [] \<longrightarrow>
            (\<exists>x. r col = Some (Num x))"
  proof (intro ballI impI, elim conjE)
    fix col
    assume col: "col \<in> set measurements" "col \<in> set (columns df)"
      and n: "nums (coerced_column p df col) \<noteq> []"
    let ?s = "coerced_column p df col"
    have "r col \<in> set (raw out col)"
      using assms(2) by (auto simp: raw_def)
    then obtain v where v: "v \<in> set ?s" "r col = Some (if isna v then series_mean ?s else v)"
      by (auto simp: clean_raw_measurement[OF assms(1) col] fillna_def)
    from v(1) obtain u where "v = to_numeric p u"
      by (auto simp: coerced_column_def)
    then show "\<exists>x. r col = Some (Num x)"
      using v(2) n to_numeric_cases[of p u] by (auto simp: series_mean_def isna_def)
  qed
qed

lemma scenario_pandas_valid: "valid_library scenario_pandas"
  by (auto simp: valid_library_def scenario_pandas_def valid_date_def days_in_month_def
      split: if_splits)

lemma scenario_valid_stamps: "valid_stamps scenario"
  by (simp add: valid_stamps_def scenario_def cell_at_def)

theorem surviving_rows_dated_and_filled_witness:
  "clean_weather_data scenario_pandas scenario = Inr scenario_cleaned
   \<and> rows scenario_cleaned ! 1 \<in> set (rows scenario_cleaned)
   \<and> valid_library scenario_pandas \<and> valid_stamps scenario
   \<and> (rows scenario_cleaned ! 1) ''Date'' = Some (Stamp \<lparr>year = 2023, month = 1, day = 6\<rparr>)
   \<and> valid_date \<lparr>year = 2023, month = 1, day = 6\<rparr>
   \<and> nums (coerced_column scenario_pandas scenario ''Temperature'') = [10, 20]
   \<and> (rows scenario_cleaned ! 1) ''Temperature'' = Some (Num 15)"
proof -
  have m: "rows scenario_cleaned ! 1 \<in> set (rows scenario_cleaned)"
    by (simp add: scenario_cleaned_def)
  have v: "(rows scenario_cleaned ! 1) ''Date'' = Some (Stamp \<lparr>year = 2023, month = 1, day = 6\<rparr>)"
    "(rows scenario_cleaned ! 1) ''Temperature'' = Some (Num 15)"
    by (simp_all add: scenario_cleaned_def)
  show ?thesis
    using surviving_rows_dated_and_filled[OF scenario_clean[OF scenario_pandas_reads] m] m v
      scenario_pandas_valid scenario_valid_stamps
    by (simp add: scenario_clean[OF scenario_pandas_reads]
        scenario_coerced_temperature[OF scenario_pandas_reads])
qed

section \<open>Properties of the grouping\<close>

lemma add_season_column_eq:
  assumes "''Date'' \<in> set (columns (h ! ref))" "datetimelike (column (h ! ref) ''Date'')"
  shows "add_season_column h ref = (h[ref := with_seasons (h ! ref)], Inr ref)"
proof -
  let ?df = "h ! ref"
  let ?g = "\<lambda>v. case v of Stamp d \<Rightarrow> Num (of_int (month d)) | _ \<Rightarrow> NaN"
  let ?df1 = "assign ''Month'' (map ?g (column ?df ''Date'')) ?df"
  have df1: "?df1 = \<lparr>columns = (if ''Month'' \<in> set (columns ?df) then columns ?df else columns ?df @ [''Month'']),
      rows = map (\<lambda>r. r(''Month'' \<mapsto> month_of_row r)) (rows ?df)\<rparr>"
    by (simp add: assign_map month_of_row_def)
  have "assign ''Season'' (map (\<lambda>v. Text (month_to_season v)) (column ?df1 ''Month'')) ?df1
        = with_seasons ?df"
    unfolding assign_map unfolding df1
    by (simp add: with_seasons_def season_of_row_def month_of_row_def o_def Let_def)
  then show ?thesis
    using assms by (simp add: add_season_column_def dt_month_def Let_def)
qed

lemma aggregate_cong:
  assumes "\<And>c. c \<in> set measurements \<Longrightarrow> map (\<lambda>r. cell_at r c) g = map (\<lambda>r. cell_at r c) g'"
  shows "aggregate g = aggregate g'"
  using assms[of "''Temperature''"] assms[of "''Rainfall''"] assms[of "''Humidity''"]
  by (simp add: aggregate_def measurements_def)

lemma measurement_not_derived: "c \<in> set measurements \<Longrightarrow> c \<noteq> ''Month'' \<and> c \<noteq> ''Season''"
  by (auto simp: measurements_def)

lemma column_with_seasons:
  "c \<noteq> ''Month'' \<Longrightarrow> c \<noteq> ''Season'' \<Longrightarrow> column (with_seasons df) c = column df c"
  by (simp add: column_def with_seasons_def o_def)

lemma column_with_seasons_Month: "column (with_seasons df) ''Month'' = map month_of_row (rows df)"
  by (simp add: column_def with_seasons_def o_def)

lemma column_with_seasons_Season: "column (with_seasons df) ''Season'' = map season_of_row (rows df)"
  by (simp add: column_def with_seasons_def o_def)

lemma columns_with_seasons:
  "set (columns (with_seasons df)) = set (columns df) \<union> {''Month'', ''Season''}"
  by (auto simp: with_seasons_def Let_def)

lemma aggregate_group_with_seasons:
  assumes "\<And>r. key (r(''Month'' \<mapsto> month_of_row r, ''Season'' \<mapsto> season_of_row r)) = key' r"
  shows "aggregate [r \<leftarrow> rows (with_seasons df). key r] = aggregate [r \<leftarrow> rows df. key' r]"
proof (rule aggregate_cong)
  fix c assume "c \<in> set measurements"
  then have c: "c \<noteq> ''Month''" "c \<noteq> ''Season''"
    using measurement_not_derived by auto
  show "map (\<lambda>r. cell_at r c) [r \<leftarrow> rows (with_seasons df). key r]
        = map (\<lambda>r. cell_at r c) [r \<leftarrow> rows df. key' r]"
    using c by (simp add: with_seasons_def filter_map o_def assms)
qed

lemma groupby_agg_with_seasons_Month:
  assumes "groupable df"
  shows "groupby_agg (with_seasons df) ''Month'' =
     Inr (\<lambda>k. if isna k \<or> k \<notin> set (map month_of_row (rows df)) then None
               else Some (aggregate [r \<leftarrow> rows df. month_of_row r = k]))"
proof -
  have m: "list_all (\<lambda>c. numeric_series (column (with_seasons df) c)) measurements"
    using assms by (simp add: groupable_def measurements_def column_with_seasons)
  have c: "''Temperature'' \<in> set (columns (with_seasons df))"
    "''Rainfall'' \<in> set (columns (with_seasons df))"
    "''Humidity'' \<in> set (columns (with_seasons df))"
    "''Month'' \<in> set (columns (with_seasons df))"
    using assms by (simp_all add: groupable_def measurements_def columns_with_seasons)
  have a: "aggregate [r \<leftarrow> rows (with_seasons df). cell_at r ''Month'' = k]
           = aggregate [r \<leftarrow> rows df. month_of_row r = k]" for k
    by (rule aggregate_group_with_seasons) simp
  show ?thesis
    using m c by (simp add: groupby_agg_def column_with_seasons_Month a cong: if_cong)
qed

lemma groupby_agg_with_seasons_Season:
  assumes "groupable df"
  shows "groupby_agg (with_seasons df) ''Season'' =
     Inr (\<lambda>k. if isna k \<or> k \<notin> set (map season_of_row (rows df)) then None
               else Some (aggregate [r \<leftarrow> rows df. season_of_row r = k]))"
proof -
  have m: "list_all (\<lambda>c. numeric_series (column (with_seasons df) c)) measurements"
    using assms by (simp add: groupable_def measurements_def column_with_seasons)
  have c: "''Temperature'' \<in> set (columns (with_seasons df))"
    "''Rainfall'' \<in> set (columns (with_seasons df))"
    "''Humidity'' \<in> set (columns (with_seasons df))"
    "''Season'' \<in> set (columns (with_seasons df))"
    using assms by (simp_all add: groupable_def measurements_def columns_with_seasons)
  have a: "aggregate [r \<leftarrow> rows (with_seasons df). cell_at r ''Season'' = k]
           = aggregate [r \<leftarrow> rows df. season_of_row r = k]" for k
    by (rule aggregate_group_with_seasons) simp
  show ?thesis
    using m c by (simp add: groupby_agg_def column_with_seasons_Season a cong: if_cong)
qed

lemma group_by_month_and_season_eq:
  assumes "groupable (h ! ref)"
  shows "group_by_month_and_season h ref =
    ((h @ [h ! ref])[length h := with_seasons (h ! ref)],
     Inr (\<lambda>k. if isna k \<or> k \<notin> set (map month_of_row (rows (h ! ref))) then None
               else Some (aggregate [r \<leftarrow> rows (h ! ref). month_of_row r = k]),
          \<lambda>k. if isna k \<or> k \<notin> set (map season_of_row (rows (h ! ref))) then None
               else Some (aggregate [r \<leftarrow> rows (h ! ref). season_of_row r = k])))"
proof -
  let ?h1 = "h @ [h ! ref]"
  have c: "?h1 ! length h = h ! ref" by simp
  have a: "add_season_column ?h1 (length h) = (?h1[length h := with_seasons (h ! ref)], Inr (length h))"
    using assms add_season_column_eq[of ?h1 "length h"] by (simp add: groupable_def)
  have n: "(?h1[length h := with_seasons (h ! ref)]) ! length h = with_seasons (h ! ref)"
    by simp
  show ?thesis
    unfolding group_by_month_and_season_def copy_def
    by (simp only: Let_def prod.case a n sum.case
        groupby_agg_with_seasons_Month[OF assms] groupby_agg_with_seasons_Season[OF assms])
qed

text \<open>
  Claim C4. The season is a function of the month number alone, and on the twelve months it
  is the fixed mapping: Winter for 12, 1, 2; Spring for 3, 4, 5; Summer for 6, 7, 8; Autumn
  for 9, 10, 11. The four names are different strings, so each month has exactly one season.
\<close>

theorem each_month_has_one_season:
  assumes "1 \<le> m" "m \<le> 12"
  shows "(month_to_season (Num (of_int m)) = ''Winter'' \<longleftrightarrow> m \<in> {12, 1, 2})
       \<and> (month_to_season (Num (of_int m)) = ''Spring'' \<longleftrightarrow> m \<in> {3, 4, 5})
       \<and> (month_to_season (Num (of_int m)) = ''Summer'' \<longleftrightarrow> m \<in> {6, 7, 8})
       \<and> (month_to_season (Num (of_int m)) = ''Autumn'' \<longleftrightarrow> m \<in> {9, 10, 11})"
proof -
  have "m = 1 \<or> m = 2 \<or> m = 3 \<or> m = 4 \<or> m = 5 \<or> m = 6 \<or> m = 7 \<or> m = 8 \<or> m = 9
        \<or> m = 10 \<or> m = 11 \<or> m = 12"
    using assms by arith
  then show ?thesis
    by (elim disjE) simp_all
qed

theorem each_month_has_one_season_witness:
  "(1::int) \<le> 9 \<and> (9::int) \<le> 12 \<and> month_to_season (Num 9) = ''Autumn''
   \<and> month_to_season (Num 9) \<noteq> ''Winter'' \<and> month_to_season (Num 9) \<noteq> ''Spring''
   \<and> month_to_season (Num 9) \<noteq> ''Summer''"
  using each_month_has_one_season[of 9] by simp

lemma numeric_fillna:
  "numeric_series (fillna (series_mean (map (to_numeric p) s)) (map (to_numeric p) s))"
proof -
  let ?m = "series_mean (map (to_numeric p) s)"
  have m: "?m = NaN \<or> (\<exists>x. ?m = Num x)"
    by (simp add: series_mean_def)
  have "case v of NaN \<Rightarrow> True | Num x \<Rightarrow> True | _ \<Rightarrow> False"
    if "v \<in> set (fillna ?m (map (to_numeric p) s))" for v
  proof -
    from that have "v = ?m \<or> (\<exists>u. v = to_numeric p u)"
      by (auto simp: fillna_def)
    then have "v = NaN \<or> (\<exists>x. v = Num x)"
      using m to_numeric_cases[of p] by auto
    then show ?thesis by auto
  qed
  then show ?thesis
    by (simp add: numeric_series_def list_all_iff)
qed

lemma cleaned_groupable:
  assumes "clean_weather_data p df0 = Inr df"
    and "list_all (\<lambda>c. c \<in> set (columns df0)) measurements"
  shows "groupable df"
proof -
  have d0: "''Date'' \<in> set (columns df0)" using assms(1) clean_Inr_iff by blast
  have co: "columns df = kept_columns df0" by (rule clean_columns[OF assms(1)])
  have d: "''Date'' \<in> set (columns df)" by (simp add: co Date_in_kept[OF d0])
  have "column df ''Date'' = map (parsed_date p) (retained p df0)"
    using cleaned_column_date[OF d0, of p] by (simp add: cleaned_column_def assms(1))
  moreover have "case parsed_date p r of NaN \<Rightarrow> True | Stamp e \<Rightarrow> True | _ \<Rightarrow> False"
    if "r \<in> set (retained p df0)" for r
    using to_datetime_cases[of p "cell_at r ''Date''"] by (auto simp: parsed_date_def)
  ultimately have dl: "datetimelike (column df ''Date'')"
    by (simp add: datetimelike_def list_all_iff)
  have m: "c \<in> set (columns df) \<and> numeric_series (column df c)" if "c \<in> set measurements" for c
  proof -
    have c0: "c \<in> set (columns df0)" using assms(2) that by (simp add: list_all_iff)
    have "column df c = fillna (series_mean (coerced_column p df0 c)) (coerced_column p df0 c)"
      using cleaned_column_measurement[OF d0 that c0, of p] by (simp add: cleaned_column_def assms(1))
    then have "numeric_series (column df c)"
      using numeric_fillna[of p "map (\<lambda>r. cell_at r c) (retained p df0)"]
      by (simp add: coerced_column_map)
    moreover have "c \<in> set (columns df)"
      using that c0 measurement_in_cols by (simp add: co in_kept_columns)
    ultimately show ?thesis by simp
  qed
  show ?thesis
    using d dl m by (simp add: groupable_def list_all_iff)
qed

lemma cleaned_rows_stamped:
  assumes "clean_weather_data p df0 = Inr df" "r \<in> set (rows df)"
  shows "\<exists>d. cell_at r ''Date'' = Stamp d"
  using clean_row_date[OF assms] by (auto simp: cell_at_def)

lemma month_of_row_in_month: "month_of_row r = Num (of_int m) \<longleftrightarrow> in_month m r"
  by (simp add: month_of_row_def in_month_def split: cell.splits)

lemma season_of_row_in_season:
  "cell_at r ''Date'' = Stamp d \<Longrightarrow> season_of_row r = Text s \<longleftrightarrow> in_season s r"
  by (simp add: season_of_row_def month_of_row_def in_season_def)

lemma cell_at_aggregate:
  "cell_at (aggregate g) ''Temperature'' = series_mean (map (\<lambda>r. cell_at r ''Temperature'') g)"
  "cell_at (aggregate g) ''Rainfall'' = series_sum (map (\<lambda>r. cell_at r ''Rainfall'') g)"
  "cell_at (aggregate g) ''Humidity'' = series_mean (map (\<lambda>r. cell_at r ''Humidity'') g)"
  by (simp_all add: aggregate_def cell_at_def)

lemma no_key_no_bucket: "k \<notin> f ` set xs \<longleftrightarrow> filter (\<lambda>r. f r = k) xs = []"
  by (auto simp: filter_empty_conv)

lemma monthly_stat_eq:
  assumes "clean_weather_data p df0 = Inr df"
    and "list_all (\<lambda>c. c \<in> set (columns df0)) measurements"
  shows "monthly_stat p df0 m c =
         Inr (if filter (in_month m) (rows df) = [] then None
              else Some (cell_at (aggregate (filter (in_month m) (rows df))) c))"
proof -
  have g: "groupable ([df] ! 0)"
    using cleaned_groupable[OF assms] by simp
  show ?thesis
    unfolding monthly_stat_def assms(1) sum.case group_by_month_and_season_eq[OF g] snd_conv
    by (simp add: no_key_no_bucket month_of_row_in_month isna_def)
qed

lemma seasonal_stat_eq:
  assumes "clean_weather_data p df0 = Inr df"
    and "list_all (\<lambda>c. c \<in> set (columns df0)) measurements"
  shows "seasonal_stat p df0 s c =
         Inr (if filter (in_season s) (rows df) = [] then None
              else Some (cell_at (aggregate (filter (in_season s) (rows df))) c))"
proof -
  have g: "groupable ([df] ! 0)"
    using cleaned_groupable[OF assms] by simp
  have fs: "filter (\<lambda>r. season_of_row r = Text s) (rows df) = filter (in_season s) (rows df)"
    by (rule filter_cong) (auto dest!: cleaned_rows_stamped[OF assms(1)] simp: season_of_row_in_season)
  show ?thesis
    unfolding seasonal_stat_def assms(1) sum.case group_by_month_and_season_eq[OF g] snd_conv
    by (simp add: no_key_no_bucket fs isna_def)
qed

lemma scenario_measurements: "list_all (\<lambda>c. c \<in> set (columns scenario)) measurements"
  by (simp add: scenario_def measurements_def)

lemma scenario_january:
  "map (\<lambda>r. cell_at r ''Rainfall'') (filter (in_month 1) (rows scenario_cleaned)) = [Num 0, Num 5]"
  "map (\<lambda>r. cell_at r ''Temperature'') (filter (in_month 1) (rows scenario_cleaned)) = [Num 10, Num 15]"
  "map (\<lambda>r. cell_at r ''Humidity'') (filter (in_month 1) (rows scenario_cleaned)) = [Num 50, Num 60]"
  by (simp_all add: scenario_cleaned_def in_month_def cell_at_def)

lemma scenario_february:
  "map (\<lambda>r. cell_at r ''Rainfall'') (filter (in_month 2) (rows scenario_cleaned)) = [Num 10]"
  by (simp add: scenario_cleaned_def in_month_def cell_at_def)

lemma scenario_march: "filter (in_month 3) (rows scenario_cleaned) = []"
  by (simp add: scenario_cleaned_def in_month_def cell_at_def)

lemma scenario_winter:
  "map (\<lambda>r. cell_at r ''Rainfall'') (filter (in_season ''Winter'') (rows scenario_cleaned))
     = [Num 0, Num 5, Num 10]"
  by (simp add: scenario_cleaned_def in_season_def cell_at_def)

lemma scenario_other_seasons:
  "filter (in_season ''Spring'') (rows scenario_cleaned) = []"
  "filter (in_season ''Summer'') (rows scenario_cleaned) = []"
  "filter (in_season ''Autumn'') (rows scenario_cleaned) = []"
  by (simp_all add: scenario_cleaned_def in_season_def cell_at_def)

lemma map_not_Nil: "map f xs = y # ys \<Longrightarrow> xs \<noteq> []"
  by auto

lemma aggregate_is_mean_sum_mean:
  "aggregate b =
     [''Temperature'' \<mapsto> bucket_mean b ''Temperature'',
      ''Rainfall'' \<mapsto> bucket_sum b ''Rainfall'',
      ''Humidity'' \<mapsto> bucket_mean b ''Humidity'']"
  by (simp add: aggregate_def series_mean_def series_sum_def bucket_mean_def bucket_sum_def
      arithmetic_mean_def Let_def)

text \<open>
  Claim C5. On a cleaned table with the three measurement columns, the grouping returns. The
  monthly table has, for a month number, one row made of the rows whose date has that month,
  whatever the year (and no row when there is none): it holds the mean of their Temperature,
  the sum of their Rainfall and the mean of their Humidity, and nothing else. The seasonal
  table has, for a season, the same three values of the rows whose month falls in the season.
\<close>

theorem month_and_season_buckets_aggregated:
  assumes "clean_weather_data p df0 = Inr df"
    and "list_all (\<lambda>c. c \<in> set (columns df0)) measurements"
    and "ref < length h" and "h ! ref = df"
  shows "\<exists>monthly_stats season_stats.
           snd (group_by_month_and_season h ref) = Inr (monthly_stats, season_stats)
           \<and> (\<forall>m. monthly_stats (Num (of_int m)) =
                   (if filter (in_month m) (rows df) = [] then None
                    else Some
                      [''Temperature'' \<mapsto> bucket_mean (filter (in_month m) (rows df)) ''Temperature'',
                       ''Rainfall'' \<mapsto> bucket_sum (filter (in_month m) (rows df)) ''Rainfall'',
                       ''Humidity'' \<mapsto> bucket_mean (filter (in_month m) (rows df)) ''Humidity'']))
           \<and> (\<forall>s. season_stats (Text s) =
                   (if filter (in_season s) (rows df) = [] then None
                    else Some
                      [''Temperature'' \<mapsto> bucket_mean (filter (in_season s) (rows df)) ''Temperature'',
                       ''Rainfall'' \<mapsto> bucket_sum (filter (in_season s) (rows df)) ''Rainfall'',
                       ''Humidity'' \<mapsto> bucket_mean (filter (in_season s) (rows df)) ''Humidity'']))"
proof -
  have g: "groupable (h ! ref)"
    using cleaned_groupable[OF assms(1,2)] assms(4) by simp
  have fm: "filter (\<lambda>r. month_of_row r = Num (of_int m)) (rows df) = filter (in_month m) (rows df)" for m
    by (simp add: month_of_row_in_month)
  have fs: "filter (\<lambda>r. season_of_row r = Text s) (rows df) = filter (in_season s) (rows df)" for s
    by (rule filter_cong) (auto dest!: cleaned_rows_stamped[OF assms(1)] simp: season_of_row_in_season)
  have e: "k \<notin> set (map f (rows df)) \<longleftrightarrow> filter (\<lambda>r. f r = k) (rows df) = []" for f :: "row \<Rightarrow> cell" and k
    by (auto simp: filter_empty_conv)
  show ?thesis
    unfolding group_by_month_and_season_eq[OF g] assms(4) snd_conv e
    by (intro exI conjI, rule refl)
       (simp_all add: fm fs isna_def aggregate_is_mean_sum_mean cong: if_cong)
qed

theorem month_and_season_buckets_aggregated_witness:
  "clean_weather_data scenario_pandas scenario = Inr scenario_cleaned
   \<and> list_all (\<lambda>c. c \<in> set (columns scenario)) measurements
   \<and> (0::nat) < length [scenario_cleaned] \<and> [scenario_cleaned] ! 0 = scenario_cleaned
   \<and> (\<exists>monthly_stats season_stats.
         snd (group_by_month_and_season [scenario_cleaned] 0) = Inr (monthly_stats, season_stats)
         \<and> map_option (\<lambda>r. cell_at r ''Temperature'') (monthly_stats (Num 1)) = Some (Num (25 / 2))
         \<and> map_option (\<lambda>r. cell_at r ''Rainfall'') (monthly_stats (Num 1)) = Some (Num 5)
         \<and> map_option (\<lambda>r. cell_at r ''Humidity'') (monthly_stats (Num 1)) = Some (Num 55)
         \<and> monthly_stats (Num 3) = None
         \<and> map_option (\<lambda>r. cell_at r ''Rainfall'') (season_stats (Text ''Winter'')) = Some (Num 15)
         \<and> season_stats (Text ''Spring'') = None)"
proof -
  note c = scenario_clean[OF scenario_pandas_reads]
  have l: "(0::nat) < length [scenario_cleaned]" "[scenario_cleaned] ! 0 = scenario_cleaned"
    by simp_all
  obtain ms ss where g: "snd (group_by_month_and_season [scenario_cleaned] 0) = Inr (ms, ss)"
    and m: "\<And>m. ms (Num (of_int m)) =
                   (if filter (in_month m) (rows scenario_cleaned) = [] then None
                    else Some
                      [''Temperature'' \<mapsto>
                         bucket_mean (filter (in_month m) (rows scenario_cleaned)) ''Temperature'',
                       ''Rainfall'' \<mapsto>
                         bucket_sum (filter (in_month m) (rows scenario_cleaned)) ''Rainfall'',
                       ''Humidity'' \<mapsto>
                         bucket_mean (filter (in_month m) (rows scenario_cleaned)) ''Humidity''])"
    and s: "\<And>s. ss (Text s) =
                   (if filter (in_season s) (rows scenario_cleaned) = [] then None
                    else Some
                      [''Temperature'' \<mapsto>
                         bucket_mean (filter (in_season s) (rows scenario_cleaned)) ''Temperature'',
                       ''Rainfall'' \<mapsto>
                         bucket_sum (filter (in_season s) (rows scenario_cleaned)) ''Rainfall'',
                       ''Humidity'' \<mapsto>
                         bucket_mean (filter (in_season s) (rows scenario_cleaned)) ''Humidity''])"
    using month_and_season_buckets_aggregated[OF c scenario_measurements l] by blast
  have j: "filter (in_month 1) (rows scenario_cleaned) \<noteq> []"
    "filter (in_season ''Winter'') (rows scenario_cleaned) \<noteq> []"
    using scenario_january(1) scenario_winter by (auto dest: map_not_Nil)
  have "map_option (\<lambda>r. cell_at r ''Temperature'') (ms (Num 1)) = Some (Num (25 / 2))"
    "map_option (\<lambda>r. cell_at r ''Rainfall'') (ms (Num 1)) = Some (Num 5)"
    "map_option (\<lambda>r. cell_at r ''Humidity'') (ms (Num 1)) = Some (Num 55)"
    "ms (Num 3) = None"
    using m[of 1] m[of 3] j
    by (simp_all add: bucket_mean_def bucket_sum_def arithmetic_mean_def Let_def
        scenario_january scenario_march)
  moreover have "map_option (\<lambda>r. cell_at r ''Rainfall'') (ss (Text ''Winter'')) = Some (Num 15)"
    "ss (Text ''Spring'') = None"
    using s[of "''Winter''"] s[of "''Spring''"] j
    by (simp_all add: bucket_sum_def scenario_winter scenario_other_seasons)
  ultimately show ?thesis
    using c scenario_measurements l g by blast
qed

text \<open>
  Claim C6, as stated, fails in its last part: the seasonal table of the scenario has a row
  for Winter only. Spring, Summer and Autumn have no row; their rainfall is not 0.
\<close>

theorem scenario_has_no_spring_row:
  "seasonal_stat scenario_pandas scenario ''Spring'' ''Rainfall'' = Inr None
   \<and> seasonal_stat scenario_pandas scenario ''Summer'' ''Rainfall'' = Inr None
   \<and> seasonal_stat scenario_pandas scenario ''Autumn'' ''Rainfall'' = Inr None"
  by (simp add: seasonal_stat_eq[OF scenario_clean[OF scenario_pandas_reads] scenario_measurements]
      scenario_other_seasons)

text \<open>
  Claim C6, amended. For every library that reads the scenario: cleaning replaces the
  temperature of row 2 by 15; the monthly rainfall sum is 5 for January and 10 for February;
  the seasonal rainfall sum is 15 for Winter, and the seasonal table has no row for Spring,
  Summer or Autumn.
\<close>

theorem scenario_cleaned_and_grouped:
  assumes "reads_scenario p"
  shows "cleaned_column p scenario ''Temperature'' = Inr [Num 10, Num 15, Num 20]
       \<and> monthly_stat p scenario 1 ''Rainfall'' = Inr (Some (Num 5))
       \<and> monthly_stat p scenario 2 ''Rainfall'' = Inr (Some (Num 10))
       \<and> seasonal_stat p scenario ''Winter'' ''Rainfall'' = Inr (Some (Num 15))
       \<and> seasonal_stat p scenario ''Spring'' ''Rainfall'' = Inr None
       \<and> seasonal_stat p scenario ''Summer'' ''Rainfall'' = Inr None
       \<and> seasonal_stat p scenario ''Autumn'' ''Rainfall'' = Inr None"
proof -
  note c = scenario_clean[OF assms]
  have t: "cleaned_column p scenario ''Temperature'' = Inr [Num 10, Num 15, Num 20]"
    by (simp add: cleaned_column_def c) (simp add: scenario_cleaned_def column_def cell_at_def)
  have j: "filter (in_month 1) (rows scenario_cleaned) \<noteq> []"
    "filter (in_month 2) (rows scenario_cleaned) \<noteq> []"
    "filter (in_season ''Winter'') (rows scenario_cleaned) \<noteq> []"
    using scenario_january(1) scenario_february scenario_winter by (auto dest: map_not_Nil)
  have m: "monthly_stat p scenario 1 ''Rainfall'' = Inr (Some (Num 5))"
    "monthly_stat p scenario 2 ''Rainfall'' = Inr (Some (Num 10))"
    using j
    by (simp_all add: monthly_stat_eq[OF c scenario_measurements] cell_at_aggregate
        scenario_january scenario_february series_sum_def)
  have s: "seasonal_stat p scenario ''Winter'' ''Rainfall'' = Inr (Some (Num 15))"
    "seasonal_stat p scenario ''Spring'' ''Rainfall'' = Inr None"
    "seasonal_stat p scenario ''Summer'' ''Rainfall'' = Inr None"
    "seasonal_stat p scenario ''Autumn'' ''Rainfall'' = Inr None"
    using j
    by (simp_all add: seasonal_stat_eq[OF c scenario_measurements] cell_at_aggregate
        scenario_winter scenario_other_seasons series_sum_def)
  from t m s show ?thesis by simp
qed

theorem scenario_cleaned_and_grouped_witness:
  "reads_scenario scenario_pandas
   \<and> cleaned_column scenario_pandas scenario ''Temperature'' = Inr [Num 10, Num 15, Num 20]
   \<and> monthly_stat scenario_pandas scenario 1 ''Rainfall'' = Inr (Some (Num 5))
   \<and> monthly_stat scenario_pandas scenario 2 ''Rainfall'' = Inr (Some (Num 10))
   \<and> seasonal_stat scenario_pandas scenario ''Winter'' ''Rainfall'' = Inr (Some (Num 15))"
  using scenario_cleaned_and_grouped[OF scenario_pandas_reads] scenario_pandas_reads by simp

section \<open>Properties of the report\<close>

lemma better_cases:
  "(better v i best = best \<and> (\<forall>y. v = Num y \<longrightarrow> (\<exists>j0 y0. best = Some (j0, y0) \<and> y \<le> y0)))
   \<or> (\<exists>y. v = Num y \<and> better v i best = Some (i, y)
           \<and> (case best of None \<Rightarrow> True | Some (j0, y0) \<Rightarrow> y0 < y))"
  by (auto simp: better_def split: cell.splits option.splits)

lemma argmax_scan_spec:
  assumes "argmax_scan s i best = Some (k, x)"
  shows "(\<forall>y \<in> set (nums s). y \<le> x)
       \<and> (case best of None \<Rightarrow> True | Some (j0, y0) \<Rightarrow> y0 \<le> x)
       \<and> (best = Some (k, x)
          \<or> (i \<le> k \<and> k < i + length s \<and> s ! (k - i) = Num x
             \<and> (\<forall>j < k - i. s ! j \<noteq> Num x)
             \<and> (case best of None \<Rightarrow> True | Some (j0, y0) \<Rightarrow> y0 < x)))"
  using assms
proof (induction s arbitrary: i best)
  case Nil
  then show ?case by (auto split: option.splits)
next
  case (Cons v s)
  let ?b = "better v i best"
  from Cons.prems have r: "argmax_scan s (Suc i) ?b = Some (k, x)" by simp
  note ih = Cons.IH[OF r]
  have nm: "\<forall>y \<in> set (nums s). y \<le> x" using ih by simp
  have shift: "(v # s) ! (k - i) = Num x" "\<forall>j < k - i. 0 < j \<longrightarrow> (v # s) ! j \<noteq> Num x"
    if "Suc i \<le> k" "s ! (k - Suc i) = Num x" "\<forall>j < k - Suc i. s ! j \<noteq> Num x"
  proof -
    show "(v # s) ! (k - i) = Num x"
      using that(1,2) by (simp add: nth_Cons' Suc_diff_le)
    show "\<forall>j < k - i. 0 < j \<longrightarrow> (v # s) ! j \<noteq> Num x"
    proof (intro allI impI)
      fix j assume "j < k - i" "0 < j"
      then obtain j' where "j = Suc j'" "j' < k - Suc i"
        by (cases j) auto
      then show "(v # s) ! j \<noteq> Num x" using that(3) by simp
    qed
  qed
  from better_cases[of v i best] show ?case
  proof (elim disjE conjE exE)
    assume same: "?b = best"
      and le: "\<forall>y. v = Num y \<longrightarrow> (\<exists>j0 y0. best = Some (j0, y0) \<and> y \<le> y0)"
    have bx: "case best of None \<Rightarrow> True | Some (j0, y0) \<Rightarrow> y0 \<le> x"
      using ih same by simp
    have vx: "y \<le> x" if "v = Num y" for y
      using le that bx by auto
    have n: "\<forall>y \<in> set (nums (v # s)). y \<le> x"
      using nm vx by (cases v) auto
    show ?thesis
    proof (cases "best = Some (k, x)")
      case True
      with n show ?thesis by simp
    next
      case False
      with ih same have a: "Suc i \<le> k" "k < Suc i + length s" "s ! (k - Suc i) = Num x"
        "\<forall>j < k - Suc i. s ! j \<noteq> Num x"
        "case best of None \<Rightarrow> True | Some (j0, y0) \<Rightarrow> y0 < x"
        by auto
      have v0: "v \<noteq> Num x"
        using le a(5) by auto
      have "\<forall>j < k - i. (v # s) ! j \<noteq> Num x"
        using shift(2)[OF a(1,3,4)] v0 by (auto simp: nth_Cons')
      then show ?thesis
        using n bx a shift(1)[OF a(1,3,4)] by auto
    qed
  next
    fix y
    assume v: "v = Num y" and new: "?b = Some (i, y)"
      and lt: "case best of None \<Rightarrow> True | Some (j0, y0) \<Rightarrow> y0 < y"
    have yx: "y \<le> x" using ih new by simp
    have n: "\<forall>y \<in> set (nums (v # s)). y \<le> x"
      using nm yx v by simp
    have bx: "case best of None \<Rightarrow> True | Some (j0, y0) \<Rightarrow> y0 < x"
      using lt yx by (auto split: option.splits)
    then have bx': "case best of None \<Rightarrow> True | Some (j0, y0) \<Rightarrow> y0 \<le> x"
      by (auto split: option.splits)
    show ?thesis
    proof (cases "(i, y) = (k, x)")
      case True
      then show ?thesis
        using n bx bx' v by auto
    next
      case False
      with ih new have a: "Suc i \<le> k" "k < Suc i + length s" "s ! (k - Suc i) = Num x"
        "\<forall>j < k - Suc i. s ! j \<noteq> Num x" "y < x"
        by auto
      have "\<forall>j < k - i. (v # s) ! j \<noteq> Num x"
        using shift(2)[OF a(1,3,4)] v a(5) by (auto simp: nth_Cons')
      then show ?thesis
        using n bx bx' a shift(1)[OF a(1,3,4)] by auto
    qed
  qed
qed

lemma argmax_scan_None: "argmax_scan s i best = None \<longleftrightarrow> best = None \<and> nums s = []"
proof (induction s arbitrary: i best)
  case Nil
  then show ?case by simp
next
  case (Cons v s)
  have "better v i best = None \<longleftrightarrow> best = None \<and> (\<forall>y. v \<noteq> Num y)"
    by (auto simp: better_def split: cell.splits option.splits)
  then show ?case
    using Cons.IH[of "Suc i" "better v i best"] by (cases v) auto
qed

lemma idxmax_first_max:
  assumes "nums s \<noteq> []"
  shows "\<exists>k x. idxmax s = Inr k \<and> k < length s \<and> s ! k = Num x
           \<and> (\<forall>y \<in> set (nums s). y \<le> x) \<and> (\<forall>j < k. s ! j \<noteq> Num x)"
proof -
  obtain k x where r: "argmax_scan s 0 None = Some (k, x)"
    using assms argmax_scan_None[of s 0 None] by (cases "argmax_scan s 0 None") auto
  from argmax_scan_spec[OF r] r show ?thesis
    by (auto simp: idxmax_def)
qed

lemma cleaned_measurement_numeric:
  assumes "clean_weather_data p df0 = Inr df" "c \<in> set measurements" "c \<in> set (columns df0)"
  shows "c \<in> set (columns df) \<and> numeric_series (column df c)"
proof -
  have d0: "''Date'' \<in> set (columns df0)" using assms(1) clean_Inr_iff by blast
  have "column df c = fillna (series_mean (coerced_column p df0 c)) (coerced_column p df0 c)"
    using cleaned_column_measurement[OF d0 assms(2,3), of p] by (simp add: cleaned_column_def assms(1))
  then have "numeric_series (column df c)"
    using numeric_fillna[of p "map (\<lambda>r. cell_at r c) (retained p df0)"]
    by (simp add: coerced_column_map)
  moreover have "c \<in> set (columns df)"
    using assms(2,3) measurement_in_cols by (simp add: clean_columns[OF assms(1)] in_kept_columns)
  ultimately show ?thesis by simp
qed

lemma cleaned_has_Date:
  assumes "clean_weather_data p df0 = Inr df"
  shows "''Date'' \<in> set (columns df)"
proof -
  have "''Date'' \<in> set (columns df0)" using assms clean_Inr_iff by blast
  then show ?thesis by (simp add: clean_columns[OF assms] Date_in_kept)
qed

lemma cleaned_Date_nth:
  assumes "clean_weather_data p df0 = Inr df" "i < length (rows df)"
  shows "\<exists>d. column df ''Date'' ! i = Stamp d"
  using cleaned_rows_stamped[OF assms(1), of "rows df ! i"] assms(2)
  by (simp add: column_def)

lemma report_of_cleaned:
  assumes "clean_weather_data p df0 = Inr df"
    and "''Temperature'' \<in> set (columns df0)" "''Rainfall'' \<in> set (columns df0)"
  shows "write_summary_report df =
     (case idxmax (column df ''Rainfall'') of
        Inl e \<Rightarrow> Inl e
      | Inr i \<Rightarrow>
          (case column df ''Date'' ! i of
             Stamp d \<Rightarrow>
               Inr \<lparr>avg_temp = series_mean (column df ''Temperature''),
                    max_temp = series_max (column df ''Temperature''),
                    min_temp = series_min (column df ''Temperature''),
                    total_rainfall = series_sum (column df ''Rainfall''),
                    max_rain_day = d\<rparr>
           | _ \<Rightarrow> Inl AttributeError))"
proof -
  have "''Temperature'' \<in> set measurements" "''Rainfall'' \<in> set measurements"
    by (simp_all add: measurements_def)
  then show ?thesis
    using cleaned_measurement_numeric[OF assms(1) _ assms(2)]
      cleaned_measurement_numeric[OF assms(1) _ assms(3)] cleaned_has_Date[OF assms(1)]
    by (simp add: write_summary_report_def split: sum.splits)
qed

lemma tied_retained: "retained scenario_pandas tied_rainfall = rows tied_rainfall"
  by (simp add: retained_def tied_rainfall_def scenario_pandas_def to_datetime_def isna_def cell_at_def)

lemma tied_columns:
  "''Date'' \<in> set (columns tied_rainfall)" "''Temperature'' \<in> set (columns tied_rainfall)"
  "''Rainfall'' \<in> set (columns tied_rainfall)"
  by (simp_all add: tied_rainfall_def)

lemma tied_cleaned_columns:
  "cleaned_column scenario_pandas tied_rainfall ''Date''
     = Inr [Stamp \<lparr>year = 2023, month = 2, day = 1\<rparr>, Stamp \<lparr>year = 2023, month = 1, day = 5\<rparr>]"
  "cleaned_column scenario_pandas tied_rainfall ''Rainfall'' = Inr [Num 10, Num 10]"
proof -
  show "cleaned_column scenario_pandas tied_rainfall ''Date''
     = Inr [Stamp \<lparr>year = 2023, month = 2, day = 1\<rparr>, Stamp \<lparr>year = 2023, month = 1, day = 5\<rparr>]"
    by (simp add: cleaned_column_date[OF tied_columns(1)] tied_retained)
       (simp add: tied_rainfall_def parsed_date_def scenario_pandas_def to_datetime_def cell_at_def)
  have "coerced_column scenario_pandas tied_rainfall ''Rainfall'' = [Num 10, Num 10]"
    by (simp add: coerced_column_def tied_retained)
       (simp add: tied_rainfall_def to_numeric_def cell_at_def)
  then show "cleaned_column scenario_pandas tied_rainfall ''Rainfall'' = Inr [Num 10, Num 10]"
    using cleaned_column_measurement[OF tied_columns(1) _ tied_columns(3), of scenario_pandas]
    by (simp add: measurements_def fillna_def isna_def)
qed

text \<open>
  Claim C7, as stated, fails: in a cleaned table whose two rows share the highest rainfall,
  the later day standing first, the report names the later day.
\<close>

theorem report_names_later_of_tied_days:
  "cleaned_column scenario_pandas tied_rainfall ''Date''
     = Inr [Stamp \<lparr>year = 2023, month = 2, day = 1\<rparr>, Stamp \<lparr>year = 2023, month = 1, day = 5\<rparr>]
   \<and> cleaned_column scenario_pandas tied_rainfall ''Rainfall'' = Inr [Num 10, Num 10]
   \<and> reported_max_rain_day scenario_pandas tied_rainfall = Inr \<lparr>year = 2023, month = 2, day = 1\<rparr>
   \<and> date_less \<lparr>year = 2023, month = 1, day = 5\<rparr> \<lparr>year = 2023, month = 2, day = 1\<rparr>"
proof -
  obtain df where df: "clean_weather_data scenario_pandas tied_rainfall = Inr df"
    using tied_columns(1) clean_Inr_iff by blast
  have c: "column df ''Date''
             = [Stamp \<lparr>year = 2023, month = 2, day = 1\<rparr>, Stamp \<lparr>year = 2023, month = 1, day = 5\<rparr>]"
    "column df ''Rainfall'' = [Num 10, Num 10]"
    using tied_cleaned_columns by (simp_all add: cleaned_column_def df)
  have "idxmax [Num 10, Num 10] = Inr 0"
    by (simp add: idxmax_def better_def)
  then have "reported_max_rain_day scenario_pandas tied_rainfall
             = Inr \<lparr>year = 2023, month = 2, day = 1\<rparr>"
    by (simp add: reported_max_rain_day_def df report_of_cleaned[OF df tied_columns(2,3)] c)
  then show ?thesis
    by (simp add: tied_cleaned_columns date_less_def)
qed

text \<open>
  Claim C7, amended. For a cleaned table with a Temperature and a Rainfall column and at least
  one rainfall value, the report is written, and the day it names is the Date of the first
  row, in table order, among the rows that hold the highest rainfall.
\<close>

theorem report_names_first_row_of_maximum_rainfall:
  assumes "clean_weather_data p df0 = Inr df"
    and "''Temperature'' \<in> set (columns df0)" "''Rainfall'' \<in> set (columns df0)"
    and "nums (column df ''Rainfall'') \<noteq> []"
  shows "\<exists>s i mx. write_summary_report df = Inr s \<and> i < length (rows df)
           \<and> cell_at (rows df ! i) ''Date'' = Stamp (max_rain_day s)
           \<and> cell_at (rows df ! i) ''Rainfall'' = Num mx
           \<and> (\<forall>j < length (rows df). \<forall>y. cell_at (rows df ! j) ''Rainfall'' = Num y \<longrightarrow> y \<le> mx)
           \<and> (\<forall>j < i. cell_at (rows df ! j) ''Rainfall'' \<noteq> Num mx)"
proof -
  let ?R = "column df ''Rainfall''"
  obtain i mx where i: "idxmax ?R = Inr i" "i < length ?R" "?R ! i = Num mx"
    "\<forall>y \<in> set (nums ?R). y \<le> mx" "\<forall>j < i. ?R ! j \<noteq> Num mx"
    using idxmax_first_max[OF assms(4)] by blast
  have l: "length ?R = length (rows df)" by (simp add: column_def)
  obtain d where d: "column df ''Date'' ! i = Stamp d"
    using cleaned_Date_nth[OF assms(1)] i(2) l by auto
  let ?s = "\<lparr>avg_temp = series_mean (column df ''Temperature''),
             max_temp = series_max (column df ''Temperature''),
             min_temp = series_min (column df ''Temperature''),
             total_rainfall = series_sum (column df ''Rainfall''),
             max_rain_day = d\<rparr>"
  have s: "write_summary_report df = Inr ?s"
    by (simp add: report_of_cleaned[OF assms(1-3)] i(1) d)
  have in_nums: "y \<in> set (nums t)" if "j < length t" "t ! j = Num y" for t j y
    using that
  proof (induction t arbitrary: j)
    case Nil
    then show ?case by simp
  next
    case (Cons v t)
    then show ?case by (cases j; cases v) auto
  qed
  have le: "\<forall>j < length (rows df). \<forall>y. cell_at (rows df ! j) ''Rainfall'' = Num y \<longrightarrow> y \<le> mx"
  proof (intro allI impI)
    fix j y assume j: "j < length (rows df)" "cell_at (rows df ! j) ''Rainfall'' = Num y"
    then have "?R ! j = Num y" by (simp add: column_def)
    then show "y \<le> mx" using in_nums[of j ?R y] j(1) l i(4) by simp
  qed
  have "cell_at (rows df ! i) ''Date'' = Stamp (max_rain_day ?s)"
    "cell_at (rows df ! i) ''Rainfall'' = Num mx"
    "\<forall>j < i. cell_at (rows df ! j) ''Rainfall'' \<noteq> Num mx"
    using d i(2,3,5) l by (simp_all add: column_def)
  with s i(2) l le show ?thesis by (intro exI[of _ ?s] exI[of _ i] exI[of _ mx]) simp
qed

theorem report_names_first_row_of_maximum_rainfall_witness:
  "\<exists>df. clean_weather_data scenario_pandas tied_rainfall = Inr df
        \<and> ''Temperature'' \<in> set (columns tied_rainfall)
        \<and> ''Rainfall'' \<in> set (columns tied_rainfall)
        \<and> nums (column df ''Rainfall'') = [10, 10]
        \<and> (\<exists>s. write_summary_report df = Inr s
                \<and> max_rain_day s = \<lparr>year = 2023, month = 2, day = 1\<rparr>
                \<and> cell_at (rows df ! 0) ''Date'' = Stamp (max_rain_day s)
                \<and> cell_at (rows df ! 0) ''Rainfall'' = Num 10
                \<and> cell_at (rows df ! 1) ''Rainfall'' = Num 10)"
proof -
  obtain df where df: "clean_weather_data scenario_pandas tied_rainfall = Inr df"
    using tied_columns(1) clean_Inr_iff by blast
  have c: "column df ''Date''
             = [Stamp \<lparr>year = 2023, month = 2, day = 1\<rparr>, Stamp \<lparr>year = 2023, month = 1, day = 5\<rparr>]"
    "column df ''Rainfall'' = [Num 10, Num 10]"
    using tied_cleaned_columns by (simp_all add: cleaned_column_def df)
  have l: "length (rows df) = 2"
    using c(2) by (simp add: column_def) (metis length_map length_Cons list.size(3) numeral_2_eq_2)
  have at: "cell_at (rows df ! j) k = column df k ! j" if "j < 2" for j k
    using that l by (simp add: column_def)
  have n: "nums (column df ''Rainfall'') \<noteq> []" by (simp add: c)
  obtain s i mx where s: "write_summary_report df = Inr s" "i < length (rows df)"
    "cell_at (rows df ! i) ''Date'' = Stamp (max_rain_day s)"
    "cell_at (rows df ! i) ''Rainfall'' = Num mx"
    "\<forall>j < i. cell_at (rows df ! j) ''Rainfall'' \<noteq> Num mx"
    using report_names_first_row_of_maximum_rainfall[OF df tied_columns(2,3) n] by blast
  have i2: "i < 2" using s(2) l by simp
  have mx: "mx = 10"
    using s(4) i2 by (auto simp: at c less_2_cases_iff)
  have "i = 0"
  proof (rule ccontr)
    assume "i \<noteq> 0"
    then have "cell_at (rows df ! 0) ''Rainfall'' \<noteq> Num mx" using s(5) by simp
    then show False by (simp add: at c mx)
  qed
  then have "max_rain_day s = \<lparr>year = 2023, month = 2, day = 1\<rparr>"
    "cell_at (rows df ! 0) ''Date'' = Stamp (max_rain_day s)"
    using s(3) by (simp_all add: at c)
  then show ?thesis
    using df tied_columns s(1) by (intro exI[of _ df]) (simp add: c at)
qed

section \<open>Properties of the store and of the export\<close>

lemma add_season_column_store:
  "fst (add_season_column h ref) = h \<or> (\<exists>x. fst (add_season_column h ref) = h[ref := x])"
  by (auto simp: add_season_column_def Let_def split: sum.splits)

lemma group_store:
  "fst (group_by_month_and_season h ref) = fst (add_season_column (h @ [h ! ref]) (length h))"
  by (simp add: group_by_month_and_season_def copy_def Let_def split: prod.splits sum.splits)

lemma group_keeps_store:
  "take (length h) (fst (group_by_month_and_season h ref)) = h"
  using add_season_column_store[of "h @ [h ! ref]" "length h"]
  by (auto simp: group_store)

lemma reparse_cleaned:
  assumes "clean_weather_data p df0 = Inr df"
  shows "assign ''Date'' (map (to_datetime p) (column df ''Date'')) df = df"
proof -
  have "r(''Date'' \<mapsto> to_datetime p (cell_at r ''Date'')) = r" if r: "r \<in> set (rows df)" for r
  proof -
    obtain d where "r ''Date'' = Some (Stamp d)"
      using clean_row_date[OF assms r] by blast
    then show ?thesis by (auto simp: cell_at_def)
  qed
  then have "map (\<lambda>r. r(''Date'' \<mapsto> to_datetime p (cell_at r ''Date''))) (rows df) = rows df"
    by (simp add: map_idI)
  then show ?thesis
    using cleaned_has_Date[OF assms] by (simp add: assign_map)
qed

lemma compute_statistics_cleaned:
  assumes "clean_weather_data p df0 = Inr df"
  shows "compute_statistics p [df] 0 = ([df], Inr ())"
proof -
  have "\<not> (\<not> isna v \<and> isna (to_datetime p v))" if "v \<in> set (column df ''Date'')" for v
  proof -
    from that obtain r where "r \<in> set (rows df)" "v = cell_at r ''Date''"
      by (auto simp: column_def)
    then obtain d where "v = Stamp d"
      using cleaned_rows_stamped[OF assms] by auto
    then show ?thesis by (simp add: isna_def)
  qed
  then have "\<not> list_ex (\<lambda>v. \<not> isna v \<and> isna (to_datetime p v)) (column df ''Date'')"
    by (auto simp: list_ex_iff)
  then show ?thesis
    using cleaned_has_Date[OF assms] reparse_cleaned[OF assms]
    by (simp add: compute_statistics_def Let_def)
qed

lemma plots_iff: "plots df = Inr () \<longleftrightarrow> list_all (\<lambda>c. c \<in> set (columns df)) measurements"
  by (simp add: plots_def measurements_def)

lemma plots_cases: "(\<exists>e. plots df = Inl e) \<or> plots df = Inr ()"
  by (simp add: plots_def)

lemma kept_all:
  assumes "''Date'' \<in> set (columns df0)" "list_all (\<lambda>c. c \<in> set (columns df0)) measurements"
  shows "kept_columns df0 = [''Date'', ''Temperature'', ''Rainfall'', ''Humidity'']"
  using assms by (simp add: kept_columns_def cols_def measurements_def)

lemma cleaned_measurements_iff:
  assumes "clean_weather_data p df0 = Inr df"
  shows "list_all (\<lambda>c. c \<in> set (columns df)) measurements
         \<longleftrightarrow> list_all (\<lambda>c. c \<in> set (columns df0)) measurements"
  by (simp add: clean_columns[OF assms] in_kept_columns measurements_def cols_def)

lemma main_exports:
  assumes "clean_weather_data p df0 = Inr df"
    and "list_all (\<lambda>c. c \<in> set (columns df0)) measurements"
  shows "main p df0 = (Some (export_cleaned_data df), write_summary_report df)"
proof -
  have pl: "plots df = Inr ()"
    using assms by (simp add: plots_iff cleaned_measurements_iff)
  have g: "groupable ([df, df] ! 1)"
    using cleaned_groupable[OF assms] by simp
  have s: "(([df, df] @ [df])[2 := x]) ! Suc 0 = df" for x
    by simp
  show ?thesis
    unfolding main_def assms(1) sum.case compute_statistics_cleaned[OF assms(1)] prod.case copy_def
    using pl group_by_month_and_season_eq[OF g]
    by (simp add: Let_def)
qed

lemma main_no_export:
  assumes "clean_weather_data p df0 = Inr df"
    and "\<not> list_all (\<lambda>c. c \<in> set (columns df0)) measurements"
  shows "fst (main p df0) = None"
proof -
  have "plots df \<noteq> Inr ()"
    using assms by (simp add: plots_iff cleaned_measurements_iff)
  then obtain e where "plots df = Inl e"
    using plots_cases[of df] by auto
  then show ?thesis
    unfolding main_def assms(1) sum.case compute_statistics_cleaned[OF assms(1)] prod.case copy_def
    by (simp add: Let_def)
qed

lemma main_clean_error: "clean_weather_data p df0 = Inl e \<Longrightarrow> fst (main p df0) = None"
  by (simp add: main_def)

text \<open>
  Claim C9. \<open>group_by_month_and_season\<close> changes no object that existed before the call; in
  particular the table it is given is the same afterwards: Month and Season are assigned to
  a copy. So when a run of \<open>main\<close> reaches the export, the file holds the cleaner's result:
  its header is Date, Temperature, Rainfall, Humidity, and it has one record of four fields
  for each retained row.
\<close>
theorem grouping_works_on_a_copy_and_export_has_four_columns:
  assumes "ref < length h" and "fst (main p df0) = Some csv"
  shows "take (length h) (fst (group_by_month_and_season h ref)) = h
       \<and> fst (group_by_month_and_season h ref) ! ref = h ! ref
       \<and> (\<exists>df. clean_weather_data p df0 = Inr df \<and> csv = export_cleaned_data df
             \<and> header csv = [''Date'', ''Temperature'', ''Rainfall'', ''Humidity'']
             \<and> length (records csv) = length (rows df)
             \<and> length (rows df) = length (retained p df0)
             \<and> list_all (\<lambda>fields. length fields = 4) (records csv))"
proof -
  have t: "take (length h) (fst (group_by_month_and_season h ref)) = h"
    by (rule group_keeps_store)
  have "fst (group_by_month_and_season h ref) ! ref
        = take (length h) (fst (group_by_month_and_season h ref)) ! ref"
    using assms(1) by simp
  then have r: "fst (group_by_month_and_season h ref) ! ref = h ! ref"
    by (simp only: t)
  obtain df where df: "clean_weather_data p df0 = Inr df"
    using assms(2) main_clean_error[of p df0] by (cases "clean_weather_data p df0") auto
  have m: "list_all (\<lambda>c. c \<in> set (columns df0)) measurements"
    using assms(2) main_no_export[OF df] by auto
  have csv: "csv = export_cleaned_data df"
    using assms(2) by (simp add: main_exports[OF df m])
  have d0: "''Date'' \<in> set (columns df0)" using df clean_Inr_iff by blast
  have c: "columns df = [''Date'', ''Temperature'', ''Rainfall'', ''Humidity'']"
    by (simp add: clean_columns[OF df] kept_all[OF d0 m])
  have "header csv = [''Date'', ''Temperature'', ''Rainfall'', ''Humidity'']"
    "length (records csv) = length (rows df)"
    "list_all (\<lambda>fields. length fields = 4) (records csv)"
    by (simp_all add: csv export_cleaned_data_def c list_all_iff)
  with t r df csv clean_length[OF df] show ?thesis by blast
qed

text \<open>The copy is where the two columns go: after the call the store holds the table as it
  was and, behind it, the copy with Month and Season.\<close>

lemma scenario_copy_gets_the_columns:
  "map columns (fst (group_by_month_and_season [scenario_cleaned] 0))
     = [[''Date'', ''Temperature'', ''Rainfall'', ''Humidity''],
        [''Date'', ''Temperature'', ''Rainfall'', ''Humidity'', ''Month'', ''Season'']]"
proof -
  have g: "groupable ([scenario_cleaned] ! 0)"
    using cleaned_groupable[OF scenario_clean[OF scenario_pandas_reads] scenario_measurements]
    by simp
  show ?thesis
    unfolding group_by_month_and_season_eq[OF g]
    by (simp add: with_seasons_def scenario_cleaned_def)
qed

theorem grouping_works_on_a_copy_and_export_has_four_columns_witness:
  "(0::nat) < length [scenario_cleaned]
   \<and> fst (main scenario_pandas scenario) = Some (export_cleaned_data scenario_cleaned)
   \<and> take 1 (fst (group_by_month_and_season [scenario_cleaned] 0)) = [scenario_cleaned]
   \<and> map columns (fst (group_by_month_and_season [scenario_cleaned] 0))
       = [[''Date'', ''Temperature'', ''Rainfall'', ''Humidity''],
          [''Date'', ''Temperature'', ''Rainfall'', ''Humidity'', ''Month'', ''Season'']]
   \<and> header (export_cleaned_data scenario_cleaned)
       = [''Date'', ''Temperature'', ''Rainfall'', ''Humidity'']
   \<and> length (records (export_cleaned_data scenario_cleaned)) = 3"
proof -
  have l: "(0::nat) < length [scenario_cleaned]" by simp
  have m: "fst (main scenario_pandas scenario) = Some (export_cleaned_data scenario_cleaned)"
    by (simp add: main_exports[OF scenario_clean[OF scenario_pandas_reads] scenario_measurements])
  have e: "header (export_cleaned_data scenario_cleaned)
             = [''Date'', ''Temperature'', ''Rainfall'', ''Humidity'']"
    "length (records (export_cleaned_data scenario_cleaned)) = 3"
    by (simp_all add: export_cleaned_data_def scenario_cleaned_def)
  have "take 1 (fst (group_by_month_and_season [scenario_cleaned] 0)) = [scenario_cleaned]"
    using grouping_works_on_a_copy_and_export_has_four_columns[OF l m] by simp
  then show ?thesis
    using l m e scenario_copy_gets_the_columns by simp
qed

end
